theory Spec2Isabelle
  imports Main "HOL-Library.Sublist"
begin

section \<open>The Leaflet provider of GreenWeb.js\<close>

text \<open>
  A shallow embedding of \<^verbatim>\<open>src/xch/providers/leaflet/leaflet_provider.ts\<close>.
  The provider talks to a full node through a message manager: every query builds a
  request packet, registers a filter whose predicate recognises the answer, and
  translates the answer once the predicate has consumed a frame.

  JavaScript values are modelled as follows: a \<^verbatim>\<open>number\<close> that holds a height is a
  natural number, a \<^verbatim>\<open>BigNumber\<close> is an integer, a hex string is a \<open>string\<close>,
  \<^verbatim>\<open>null\<close> and \<^verbatim>\<open>undefined\<close> are \<open>None\<close>, an exception is the left
  summand of a result.
\<close>

subsection \<open>Data model\<close>

type_synonym number = nat
type_synonym BigNumber = int

datatype error = Error string | DecodeError | Timeout | TypeError

text \<open>The message type codes that the provider names.\<close>

datatype ProtocolMessageTypes =
    new_peak_wallet
  | register_interest_in_puzzle_hash
  | respond_to_ph_update
  | register_interest_in_coin
  | respond_to_coin_update
  | request_puzzle_solution
  | respond_puzzle_solution
  | reject_puzzle_solution
  | request_children
  | respond_children
  | request_block_header
  | respond_block_header
  | reject_header_request
  | request_header_blocks
  | respond_header_blocks
  | reject_header_blocks
  | request_removals
  | respond_removals
  | reject_removals_request
  | request_additions
  | respond_additions
  | reject_additions_request

text \<open>
  The packets of the wallet protocol, with the fields that the provider reads or
  writes. Header blocks (\<open>'hb\<close>) and programs (\<open>'p\<close>) are opaque to the provider.
\<close>

record Coin =
  parentCoinInfo :: string
  puzzleHash :: string
  amount :: nat

record CoinState =
  coin :: Coin
  spentHeight :: "number option"
  createdHeight :: "number option"

record NewPeakWallet =
  height :: number

record RegisterForPhUpdates =
  puzzleHashes :: "string list"
  minHeight :: number

record RespondToPhUpdates =
  puzzleHashes :: "string list"
  minHeight :: number
  coinStates :: "CoinState list"

record RegisterForCoinUpdates =
  coinIds :: "string list"
  minHeight :: number

record RespondToCoinUpdates =
  coinIds :: "string list"
  minHeight :: number
  coinStates :: "CoinState list"

record RequestPuzzleSolution =
  coinName :: string
  height :: number

record RejectPuzzleSolution =
  coinName :: string
  height :: number

record 'p PuzzleSolutionResponse =
  coinName :: string
  height :: number
  puzzle :: 'p
  solution :: 'p

record 'p RespondPuzzleSolution =
  response :: "'p PuzzleSolutionResponse"

record RequestChildren =
  coinName :: string

record RespondChildren =
  coinStates :: "CoinState list"

record RequestHeaderBlocks =
  startHeight :: number
  endHeight :: number

record RejectHeaderBlocks =
  startHeight :: number
  endHeight :: number

record 'hb RespondHeaderBlocks =
  startHeight :: number
  endHeight :: number
  headerBlocks :: "'hb list"

record RequestRemovals =
  height :: number
  headerHash :: string
  coinNames :: "string list option"

record RejectRemovalsRequest =
  height :: number
  headerHash :: string

record RespondRemovals =
  height :: number
  headerHash :: string
  coins :: "(string \<times> Coin option) list"

text \<open>
  An inbound frame: its type code and its payload, still encoded (\<open>'d\<close>). An outbound
  frame is what \<^verbatim>\<open>makeMsg\<close> is given: the type code and the packet.
\<close>

record 'd Message =
  type :: ProtocolMessageTypes
  data :: 'd

datatype Packet =
    RegisterForPhUpdatesPckt RegisterForPhUpdates
  | RegisterForCoinUpdatesPckt RegisterForCoinUpdates
  | RequestPuzzleSolutionPckt RequestPuzzleSolution
  | RequestChildrenPckt RequestChildren
  | RequestHeaderBlocksPckt RequestHeaderBlocks
  | RequestRemovalsPckt RequestRemovals

type_synonym Buffer = "ProtocolMessageTypes \<times> Packet"

definition makeMsg :: "ProtocolMessageTypes \<Rightarrow> Packet \<Rightarrow> Buffer" where
  "makeMsg t pckt = (t, pckt)"

subsection \<open>The collaborators of the provider\<close>

text \<open>
  \<^verbatim>\<open>AddressUtil\<close>, \<^verbatim>\<open>Serializer\<close>, \<^verbatim>\<open>ProviderUtil\<close> and
  \<^verbatim>\<open>Util.coin.getId\<close> live in other files. The provider is modelled for every
  implementation of them: each is a record of functions that the operations take as
  an argument. The two validators answer the empty string when the input is not
  valid, which is what the provider tests with \<^verbatim>\<open>length === 0\<close>; a deserializer
  that cannot decode its input throws (\<open>None\<close>).
\<close>

record AddressUtil =
  addressToPuzzleHash :: "string \<Rightarrow> string"
  validateHashString :: "string \<Rightarrow> string"

record ('d, 'hb, 'p) Serializer =
  deserialize_NewPeakWallet :: "'d \<Rightarrow> NewPeakWallet option"
  deserialize_RespondToPhUpdates :: "'d \<Rightarrow> RespondToPhUpdates option"
  deserialize_RespondToCoinUpdates :: "'d \<Rightarrow> RespondToCoinUpdates option"
  deserialize_RejectPuzzleSolution :: "'d \<Rightarrow> RejectPuzzleSolution option"
  deserialize_RespondPuzzleSolution :: "'d \<Rightarrow> 'p RespondPuzzleSolution option"
  deserialize_RespondChildren :: "'d \<Rightarrow> RespondChildren option"
  deserialize_RejectHeaderBlocks :: "'d \<Rightarrow> RejectHeaderBlocks option"
  deserialize_RespondHeaderBlocks :: "'d \<Rightarrow> 'hb RespondHeaderBlocks option"
  deserialize_RejectRemovalsRequest :: "'d \<Rightarrow> RejectRemovalsRequest option"
  deserialize_RespondRemovals :: "'d \<Rightarrow> RespondRemovals option"

record ('hb, 'p, 'bh, 'ps, 'pcs, 'pc) ProviderUtil =
  serializerHeaderBlockToProviderBlockHeader :: "'hb \<Rightarrow> BigNumber \<Rightarrow> 'bh"
  serializerPuzzleSolutionResponseToProviderPuzzleSolution :: "'p PuzzleSolutionResponse \<Rightarrow> 'ps"
  serializerCoinStateToProviderCoinState :: "CoinState \<Rightarrow> 'pcs"
  serializerCoinToProviderCoin :: "Coin \<Rightarrow> 'pc"

subsection \<open>The message manager\<close>

text \<open>
  A filter is the object that the provider hands to \<^verbatim>\<open>registerFilter\<close>. Its
  predicate is a closure over variables of the caller that it may assign; the model
  passes their values (\<open>'v\<close>) in and out. The predicate answers whether it consumed
  the frame, or throws.
\<close>

record ('d, 'v) MessageFilter =
  messageToSend :: "Buffer option"
  consumeMessage :: "'d Message \<Rightarrow> 'v \<Rightarrow> error + bool \<times> 'v"
  deleteAfterFirstMessageConsumed :: bool
  expectedMaxRensponseWait :: nat

record ('d, 'v) MessageManager =
  sent :: "Buffer list"
  filters :: "('d, 'v) MessageFilter list"

text \<open>
  Modelled from the spec: \<^verbatim>\<open>MessageManager\<close> (its file is not among
  the sources). The manager starts with an empty registry and nothing sent.
  \<open>registerFilter\<close> inserts the filter at the end of the registry and transmits its
  \<open>messageToSend\<close>, if there is one, exactly once. An inbound frame is offered to the
  filters in insertion order; the first one whose predicate answers true consumes it,
  is removed when it is one-shot, and the iteration stops. A frame that no filter
  consumes is discarded, and so is a frame whose decoding fails in a predicate. Time is
  not modelled: \<open>expectedMaxRensponseWait\<close> is recorded and not interpreted.
\<close>

definition newMessageManager :: "('d, 'v) MessageManager" where
  "newMessageManager = \<lparr>sent = [], filters = []\<rparr>"

definition registerFilter ::
  "('d, 'v) MessageFilter \<Rightarrow> ('d, 'v) MessageManager \<Rightarrow> ('d, 'v) MessageManager" where
  "registerFilter f mm =
     mm\<lparr>sent := sent mm @ (case messageToSend f of None \<Rightarrow> [] | Some b \<Rightarrow> [b]),
        filters := filters mm @ [f]\<rparr>"

fun offer ::
  "'d Message \<Rightarrow> ('d, 'v) MessageFilter list \<Rightarrow> 'v \<Rightarrow> ('d, 'v) MessageFilter list \<times> 'v" where
  "offer msg [] v = ([], v)"
| "offer msg (f # fs) v =
     (case consumeMessage f msg v of
        Inl e \<Rightarrow> (f # fs, v)
      | Inr (consumed, v') \<Rightarrow>
          if consumed then (if deleteAfterFirstMessageConsumed f then fs else f # fs, v')
          else (case offer msg fs v' of (fs', v'') \<Rightarrow> (f # fs', v'')))"

definition onMessage ::
  "'d Message \<Rightarrow> ('d, 'v) MessageManager \<times> 'v \<Rightarrow> ('d, 'v) MessageManager \<times> 'v" where
  "onMessage msg st =
     (case offer msg (filters (fst st)) (snd st) of
        (fs, v) \<Rightarrow> ((fst st)\<lparr>filters := fs\<rparr>, v))"

fun receive ::
  "'d Message list \<Rightarrow> ('d, 'v) MessageManager \<times> 'v \<Rightarrow> ('d, 'v) MessageManager \<times> 'v" where
  "receive [] st = st"
| "receive (msg # msgs) st = receive msgs (onMessage msg st)"

text \<open>
  Modelled from the spec: a provider operation that awaits \<^verbatim>\<open>registerFilter\<close>
  resumes when its one-shot filter has consumed a frame, and fails with a timeout when
  none of the frames that arrive before the deadline is consumed. \<open>request f v inbound\<close>
  registers \<open>f\<close> with a manager of its own, lets the frames \<open>inbound\<close> arrive, and
  returns the frames sent together with the variables of the caller as the predicate
  left them.
\<close>

definition request ::
  "('d, 'v) MessageFilter \<Rightarrow> 'v \<Rightarrow> 'd Message list \<Rightarrow> Buffer list \<times> (error + 'v)" where
  "request f v inbound =
     (case receive inbound (registerFilter f newMessageManager, v) of
        (mm, v') \<Rightarrow> (sent mm, if filters mm = [] then Inr v' else Inl Timeout))"

subsection \<open>The provider: connect and getBlockNumber\<close>

definition ADDRESS_PREFIX :: string where
  "ADDRESS_PREFIX = ''xch''"

text \<open>
  The fields of the provider. The predicate that \<open>connect\<close> registers assigns
  \<open>blockNumber\<close>, so the filters of the provider's manager pass that field in and out.
  \<open>connect\<close> first awaits \<^verbatim>\<open>messageManager.initialize()\<close>, which opens the
  channel; the channel is not modelled.
\<close>

record 'd LeafletProvider =
  messageManager :: "('d, number option) MessageManager"
  blockNumber :: "number option"
  networkId :: string

definition newLeafletProvider :: "string \<Rightarrow> string \<Rightarrow> nat option \<Rightarrow> string option \<Rightarrow> 'd LeafletProvider" where
  "newLeafletProvider host apiKey port netId =
     \<lparr>messageManager = newMessageManager,
      blockNumber = None,
      networkId = (case netId of None \<Rightarrow> ''mainnet'' | Some n \<Rightarrow> n)\<rparr>"

text \<open>
  The height of a peak is a 32-bit number, so \<^verbatim>\<open>BigNumber.from(pckt.height).toNumber()\<close>
  is that number.
\<close>

definition connect_consumeMessage ::
  "('d, 'hb, 'p) Serializer \<Rightarrow> 'd Message \<Rightarrow> number option \<Rightarrow> error + bool \<times> number option" where
  "connect_consumeMessage ser msg blockNum =
     (if type msg \<noteq> new_peak_wallet then Inr (False, blockNum)
      else case deserialize_NewPeakWallet ser (data msg) of
             None \<Rightarrow> Inl DecodeError
           | Some pckt \<Rightarrow> Inr (True, Some (NewPeakWallet.height pckt)))"

definition connect :: "('d, 'hb, 'p) Serializer \<Rightarrow> 'd LeafletProvider \<Rightarrow> 'd LeafletProvider" where
  "connect ser this =
     this\<lparr>messageManager :=
       registerFilter
         \<lparr>messageToSend = None,
          consumeMessage = connect_consumeMessage ser,
          deleteAfterFirstMessageConsumed = False,
          expectedMaxRensponseWait = 120 * 1000\<rparr>
         (messageManager this)\<rparr>"

text \<open>The frames \<open>msgs\<close> arrive, in this order, at the provider's manager.\<close>

definition deliver :: "'d Message list \<Rightarrow> 'd LeafletProvider \<Rightarrow> 'd LeafletProvider" where
  "deliver msgs this =
     (case receive msgs (messageManager this, blockNumber this) of
        (mm, blockNum) \<Rightarrow> this\<lparr>messageManager := mm, blockNumber := blockNum\<rparr>)"

text \<open>\<open>getBlockNumber\<close> returns the provider as it leaves it, and the answer.\<close>

definition getBlockNumber :: "'d LeafletProvider \<Rightarrow> 'd LeafletProvider \<times> number option" where
  "getBlockNumber this = (this, blockNumber this)"

text \<open>
  Modelled from the spec: \<^verbatim>\<open>MessageManager.close\<close> (its file is not among the
  sources) closes the channel, cancels what is pending and clears the registry. The
  provider's \<open>close\<close> awaits it and assigns no field of its own.
\<close>

definition closeManager :: "('d, 'v) MessageManager \<Rightarrow> ('d, 'v) MessageManager" where
  "closeManager mm = mm\<lparr>filters := []\<rparr>"

definition close :: "'d LeafletProvider \<Rightarrow> 'd LeafletProvider" where
  "close this = this\<lparr>messageManager := closeManager (messageManager this)\<rparr>"

text \<open>
  The life of a provider after its construction: calls of \<open>connect\<close> and \<open>close\<close>
  and frames that arrive, in any order.
\<close>

datatype 'd Event = Connect | Close | Receive "'d Message"

fun occur :: "('d, 'hb, 'p) Serializer \<Rightarrow> 'd Event \<Rightarrow> 'd LeafletProvider \<Rightarrow> 'd LeafletProvider" where
  "occur ser Connect this = connect ser this"
| "occur ser Close this = close this"
| "occur ser (Receive msg) this = deliver [msg] this"

fun history ::
  "('d, 'hb, 'p) Serializer \<Rightarrow> 'd Event list \<Rightarrow> 'd LeafletProvider \<Rightarrow> 'd LeafletProvider" where
  "history ser [] this = this"
| "history ser (e # es) this = history ser es (occur ser e this)"

text \<open>
  Whether the manager consumes a frame: the iteration of \<open>offer\<close> reaches a filter whose
  predicate answers true.
\<close>

fun consumedByFilters :: "'d Message \<Rightarrow> ('d, 'v) MessageFilter list \<Rightarrow> 'v \<Rightarrow> bool" where
  "consumedByFilters msg [] v = False"
| "consumedByFilters msg (f # fs) v =
     (case consumeMessage f msg v of
        Inl e \<Rightarrow> False
      | Inr (consumed, v') \<Rightarrow> consumed \<or> consumedByFilters msg fs v')"

text \<open>
  The heights carried by the \<open>new_peak_wallet\<close> frames that the provider's manager
  consumed during its life, oldest first.
\<close>

fun heightsConsumed ::
  "('d, 'hb, 'p) Serializer \<Rightarrow> 'd Event list \<Rightarrow> 'd LeafletProvider \<Rightarrow> number list" where
  "heightsConsumed ser [] this = []"
| "heightsConsumed ser (Connect # es) this = heightsConsumed ser es (occur ser Connect this)"
| "heightsConsumed ser (Close # es) this = heightsConsumed ser es (occur ser Close this)"
| "heightsConsumed ser (Receive msg # es) this =
     (if type msg = new_peak_wallet
         \<and> consumedByFilters msg (filters (messageManager this)) (blockNumber this)
      then (case deserialize_NewPeakWallet ser (data msg) of
              None \<Rightarrow> []
            | Some pckt \<Rightarrow> [NewPeakWallet.height pckt])
      else [])
     @ heightsConsumed ser es (occur ser (Receive msg) this)"

subsection \<open>getBalance\<close>

record getBalanceArgs =
  address :: "string option"
  puzzleHash :: "string option"
  minHeight :: "number option"

text \<open>
  The first statement of \<open>getBalance\<close>: the puzzle hash to ask for, or \<open>None\<close> where
  the source returns \<^verbatim>\<open>null\<close> at once.
\<close>

definition getBalance_puzHash :: "AddressUtil \<Rightarrow> getBalanceArgs \<Rightarrow> string option" where
  "getBalance_puzHash au args =
     (if address args \<noteq> None \<and> prefix ADDRESS_PREFIX (the (address args)) then
        (let puzHash = addressToPuzzleHash au (the (address args))
         in if length puzHash = 0 then None else Some puzHash)
      else if getBalanceArgs.puzzleHash args \<noteq> None then
        Some (validateHashString au (the (getBalanceArgs.puzzleHash args)))
      else None)"

text \<open>The predicate; the variable it assigns is \<open>coinStates\<close>.\<close>

definition getBalance_consumeMessage ::
  "('d, 'hb, 'p) Serializer \<Rightarrow> string \<Rightarrow> 'd Message \<Rightarrow> CoinState list
     \<Rightarrow> error + bool \<times> CoinState list" where
  "getBalance_consumeMessage ser puzHash msg coinSts =
     (if type msg \<noteq> respond_to_ph_update then Inr (False, coinSts)
      else case deserialize_RespondToPhUpdates ser (data msg) of
             None \<Rightarrow> Inl DecodeError
           | Some rPckt \<Rightarrow>
               if puzHash \<notin> set (RespondToPhUpdates.puzzleHashes rPckt) then Inr (False, coinSts)
               else Inr (True,
                 filter (\<lambda>cs. Coin.puzzleHash (coin cs) = puzHash)
                   (RespondToPhUpdates.coinStates rPckt)))"

text \<open>The loop that adds the amounts, from index \<open>i\<close> on.\<close>

function getBalance_loop :: "CoinState list \<Rightarrow> nat \<Rightarrow> BigNumber \<Rightarrow> BigNumber" where
  "getBalance_loop unspentCoins i balance =
     (if i < length unspentCoins
      then getBalance_loop unspentCoins (i + 1) (balance + int (amount (coin (unspentCoins ! i))))
      else balance)"
  by pat_completeness auto
termination
  by (relation "measure (\<lambda>(unspentCoins, i, balance). length unspentCoins - i)") auto

text \<open>
  The result of an operation is the list of frames it sent and what it returned or
  threw, given the frames \<open>inbound\<close> that arrive while it waits. A filter that sets
  neither \<open>deleteAfterFirstMessageConsumed\<close> nor \<open>expectedMaxRensponseWait\<close> gets the
  defaults: one-shot, 15 seconds.
\<close>

definition getBalance ::
  "AddressUtil \<Rightarrow> ('d, 'hb, 'p) Serializer \<Rightarrow> getBalanceArgs \<Rightarrow> 'd Message list
     \<Rightarrow> Buffer list \<times> (error + BigNumber option)" where
  "getBalance au ser args inbound =
     (case getBalance_puzHash au args of
        None \<Rightarrow> ([], Inr None)
      | Some puzHash \<Rightarrow>
          (let pckt = \<lparr>RegisterForPhUpdates.puzzleHashes = [puzHash],
                       RegisterForPhUpdates.minHeight =
                         (case getBalanceArgs.minHeight args of None \<Rightarrow> 0 | Some h \<Rightarrow> h)\<rparr>;
               msgToSend = makeMsg register_interest_in_puzzle_hash (RegisterForPhUpdatesPckt pckt)
           in case request
                \<lparr>messageToSend = Some msgToSend,
                 consumeMessage = getBalance_consumeMessage ser puzHash,
                 deleteAfterFirstMessageConsumed = True,
                 expectedMaxRensponseWait = 15000\<rparr> [] inbound of
                (out, Inl e) \<Rightarrow> (out, Inl e)
              | (out, Inr coinSts) \<Rightarrow>
                  (let unspentCoins = filter (\<lambda>coinState. spentHeight coinState = None) coinSts
                   in (out, Inr (Some (getBalance_loop unspentCoins 0 0))))))"

subsection \<open>Subscriptions\<close>

text \<open>
  A subscription registers a persistent filter with the manager it is given and
  returns. The callback of the caller acts on the caller's variables (\<open>'v\<close>).
\<close>

record 'v subscribeToPuzzleHashUpdatesArgs =
  puzzleHash :: string
  callback :: "CoinState list \<Rightarrow> 'v \<Rightarrow> 'v"
  minHeight :: "number option"

definition subscribeToPuzzleHashUpdates_consumeMessage ::
  "('d, 'hb, 'p) Serializer \<Rightarrow> string \<Rightarrow> (CoinState list \<Rightarrow> 'v \<Rightarrow> 'v) \<Rightarrow> 'd Message \<Rightarrow> 'v
     \<Rightarrow> error + bool \<times> 'v" where
  "subscribeToPuzzleHashUpdates_consumeMessage ser puzHash cb msg v =
     (if type msg \<noteq> respond_to_ph_update then Inr (False, v)
      else case deserialize_RespondToPhUpdates ser (data msg) of
             None \<Rightarrow> Inl DecodeError
           | Some rPckt \<Rightarrow>
               if puzHash \<notin> set (RespondToPhUpdates.puzzleHashes rPckt) then Inr (False, v)
               else (let coins = filter (\<lambda>cs. Coin.puzzleHash (coin cs) = puzHash)
                                   (RespondToPhUpdates.coinStates rPckt)
                     in Inr (True, cb coins v)))"

definition subscribeToPuzzleHashUpdates ::
  "AddressUtil \<Rightarrow> ('d, 'hb, 'p) Serializer \<Rightarrow> 'v subscribeToPuzzleHashUpdatesArgs
     \<Rightarrow> ('d, 'v) MessageManager \<Rightarrow> ('d, 'v) MessageManager" where
  "subscribeToPuzzleHashUpdates au ser args mm =
     (let puzHash = validateHashString au (subscribeToPuzzleHashUpdatesArgs.puzzleHash args)
      in if length puzHash = 0 then mm
         else
           (let pckt = \<lparr>RegisterForPhUpdates.puzzleHashes = [puzHash],
                        RegisterForPhUpdates.minHeight =
                          (case subscribeToPuzzleHashUpdatesArgs.minHeight args of
                             None \<Rightarrow> 0 | Some h \<Rightarrow> h)\<rparr>;
                msgToSend = makeMsg register_interest_in_puzzle_hash (RegisterForPhUpdatesPckt pckt)
            in registerFilter
                 \<lparr>messageToSend = Some msgToSend,
                  consumeMessage =
                    subscribeToPuzzleHashUpdates_consumeMessage ser puzHash
                      (subscribeToPuzzleHashUpdatesArgs.callback args),
                  deleteAfterFirstMessageConsumed = False,
                  expectedMaxRensponseWait = 0\<rparr> mm))"

record 'v subscribeToCoinUpdatesArgs =
  coinId :: string
  callback :: "CoinState list \<Rightarrow> 'v \<Rightarrow> 'v"
  minHeight :: "number option"

text \<open>\<open>getId\<close> stands for \<^verbatim>\<open>Util.coin.getId\<close>.\<close>

definition subscribeToCoinUpdates_consumeMessage ::
  "('d, 'hb, 'p) Serializer \<Rightarrow> (Coin \<Rightarrow> string) \<Rightarrow> string \<Rightarrow> (CoinState list \<Rightarrow> 'v \<Rightarrow> 'v)
     \<Rightarrow> 'd Message \<Rightarrow> 'v \<Rightarrow> error + bool \<times> 'v" where
  "subscribeToCoinUpdates_consumeMessage ser getId cId cb msg v =
     (if type msg \<noteq> respond_to_coin_update then Inr (False, v)
      else case deserialize_RespondToCoinUpdates ser (data msg) of
             None \<Rightarrow> Inl DecodeError
           | Some rPckt \<Rightarrow>
               if cId \<notin> set (RespondToCoinUpdates.coinIds rPckt) then Inr (False, v)
               else (let coins = filter (\<lambda>cs. getId (coin cs) = cId)
                                   (RespondToCoinUpdates.coinStates rPckt)
                     in Inr (True, cb coins v)))"

definition subscribeToCoinUpdates ::
  "AddressUtil \<Rightarrow> ('d, 'hb, 'p) Serializer \<Rightarrow> (Coin \<Rightarrow> string) \<Rightarrow> 'v subscribeToCoinUpdatesArgs
     \<Rightarrow> ('d, 'v) MessageManager \<Rightarrow> ('d, 'v) MessageManager" where
  "subscribeToCoinUpdates au ser getId args mm =
     (let cId = validateHashString au (subscribeToCoinUpdatesArgs.coinId args)
      in if length cId = 0 then mm
         else
           (let pckt = \<lparr>RegisterForCoinUpdates.coinIds = [cId],
                        RegisterForCoinUpdates.minHeight =
                          (case subscribeToCoinUpdatesArgs.minHeight args of
                             None \<Rightarrow> 0 | Some h \<Rightarrow> h)\<rparr>;
                msgToSend = makeMsg register_interest_in_coin (RegisterForCoinUpdatesPckt pckt)
            in registerFilter
                 \<lparr>messageToSend = Some msgToSend,
                  consumeMessage =
                    subscribeToCoinUpdates_consumeMessage ser getId cId
                      (subscribeToCoinUpdatesArgs.callback args),
                  deleteAfterFirstMessageConsumed = False,
                  expectedMaxRensponseWait = 0\<rparr> mm))"

subsection \<open>getPuzzleSolution\<close>

record getPuzzleSolutionArgs =
  coinId :: string
  height :: number

text \<open>
  The predicate assigns \<open>respPckt\<close> and \<open>returnNull\<close>. A packet object that was
  created and never assigned is \<open>None\<close>: it has no fields, and the model treats reading
  it as an error (\<open>TypeError\<close>); the last section shows that no operation does. Each
  \<^verbatim>\<open>if\<close> statement of the predicate either returns (\<open>Some\<close>) or falls through to
  the next statement (\<open>None\<close>).
\<close>

definition getPuzzleSolution_consumeMessage ::
  "('d, 'hb, 'p) Serializer \<Rightarrow> string \<Rightarrow> number \<Rightarrow> 'd Message
     \<Rightarrow> 'p PuzzleSolutionResponse option \<times> bool
     \<Rightarrow> error + bool \<times> ('p PuzzleSolutionResponse option \<times> bool)" where
  "getPuzzleSolution_consumeMessage ser cId h msg vars =
     (case (if type msg = reject_puzzle_solution then
              (case deserialize_RejectPuzzleSolution ser (data msg) of
                 None \<Rightarrow> Some (Inl DecodeError)
               | Some rPckt \<Rightarrow>
                   if RejectPuzzleSolution.coinName rPckt = cId \<and> RejectPuzzleSolution.height rPckt = h
                   then Some (Inr (True, (fst vars, True)))
                   else None)
            else None) of
        Some r \<Rightarrow> r
      | None \<Rightarrow>
          (case (if type msg = respond_puzzle_solution then
                   (case deserialize_RespondPuzzleSolution ser (data msg) of
                      None \<Rightarrow> Some (Inl DecodeError)
                    | Some rPckt \<Rightarrow>
                        if PuzzleSolutionResponse.coinName (response rPckt) = cId
                           \<and> PuzzleSolutionResponse.height (response rPckt) = h
                        then Some (Inr (True, (Some (response rPckt), snd vars)))
                        else None)
                 else None) of
             Some r \<Rightarrow> r
           | None \<Rightarrow> Inr (False, vars)))"

definition getPuzzleSolution ::
  "AddressUtil \<Rightarrow> ('d, 'hb, 'p) Serializer \<Rightarrow> ('hb, 'p, 'bh, 'ps, 'pcs, 'pc) ProviderUtil
     \<Rightarrow> getPuzzleSolutionArgs \<Rightarrow> 'd Message list \<Rightarrow> Buffer list \<times> (error + 'ps option)" where
  "getPuzzleSolution au ser pu args inbound =
     (let cId = validateHashString au (getPuzzleSolutionArgs.coinId args)
      in if length cId = 0 then ([], Inr None)
         else
           (let pckt = \<lparr>RequestPuzzleSolution.coinName = cId,
                        RequestPuzzleSolution.height = getPuzzleSolutionArgs.height args\<rparr>;
                msgToSend = makeMsg request_puzzle_solution (RequestPuzzleSolutionPckt pckt)
            in case request
                 \<lparr>messageToSend = Some msgToSend,
                  consumeMessage =
                    getPuzzleSolution_consumeMessage ser cId (getPuzzleSolutionArgs.height args),
                  deleteAfterFirstMessageConsumed = True,
                  expectedMaxRensponseWait = 15000\<rparr> (None, False) inbound of
                 (out, Inl e) \<Rightarrow> (out, Inl e)
               | (out, Inr (respPckt, returnNull)) \<Rightarrow>
                   if returnNull then (out, Inr None)
                   else (case respPckt of
                           None \<Rightarrow> (out, Inl TypeError)
                         | Some r \<Rightarrow>
                             (out, Inr (Some
                               (serializerPuzzleSolutionResponseToProviderPuzzleSolution pu r))))))"

subsection \<open>getCoinChildren\<close>

record getCoinChildrenArgs =
  coinId :: string

definition getCoinChildren_consumeMessage ::
  "('d, 'hb, 'p) Serializer \<Rightarrow> string \<Rightarrow> 'd Message \<Rightarrow> RespondChildren option
     \<Rightarrow> error + bool \<times> RespondChildren option" where
  "getCoinChildren_consumeMessage ser cId msg respPckt =
     (if type msg \<noteq> respond_children then Inr (False, respPckt)
      else case deserialize_RespondChildren ser (data msg) of
             None \<Rightarrow> Inl DecodeError
           | Some rPckt \<Rightarrow>
               if length (RespondChildren.coinStates rPckt) = 0
                  \<or> parentCoinInfo (coin (RespondChildren.coinStates rPckt ! 0)) = cId
               then Inr (True, Some rPckt)
               else Inr (False, respPckt))"

function getCoinChildren_loop ::
  "('hb, 'p, 'bh, 'ps, 'pcs, 'pc) ProviderUtil \<Rightarrow> CoinState list \<Rightarrow> nat \<Rightarrow> 'pcs list \<Rightarrow> 'pcs list" where
  "getCoinChildren_loop pu respCoinStates i coinSts =
     (if i < length respCoinStates
      then getCoinChildren_loop pu respCoinStates (i + 1)
             (coinSts @ [serializerCoinStateToProviderCoinState pu (respCoinStates ! i)])
      else coinSts)"
  by pat_completeness auto
termination
  by (relation "measure (\<lambda>(pu, respCoinStates, i, coinSts). length respCoinStates - i)") auto

definition getCoinChildren ::
  "AddressUtil \<Rightarrow> ('d, 'hb, 'p) Serializer \<Rightarrow> ('hb, 'p, 'bh, 'ps, 'pcs, 'pc) ProviderUtil
     \<Rightarrow> getCoinChildrenArgs \<Rightarrow> 'd Message list \<Rightarrow> Buffer list \<times> (error + 'pcs list)" where
  "getCoinChildren au ser pu args inbound =
     (let cId = validateHashString au (getCoinChildrenArgs.coinId args)
      in if length cId = 0 then ([], Inr [])
         else
           (let pckt = \<lparr>RequestChildren.coinName = cId\<rparr>;
                msgToSend = makeMsg request_children (RequestChildrenPckt pckt)
            in case request
                 \<lparr>messageToSend = Some msgToSend,
                  consumeMessage = getCoinChildren_consumeMessage ser cId,
                  deleteAfterFirstMessageConsumed = True,
                  expectedMaxRensponseWait = 15000\<rparr> None inbound of
                 (out, Inl e) \<Rightarrow> (out, Inl e)
               | (out, Inr None) \<Rightarrow> (out, Inl TypeError)
               | (out, Inr (Some respPckt)) \<Rightarrow>
                   (out, Inr (getCoinChildren_loop pu (RespondChildren.coinStates respPckt) 0 []))))"

subsection \<open>getBlocksHeaders\<close>

record getBlocksHeadersArgs =
  startHeight :: number
  endHeight :: number

definition getBlocksHeaders_consumeMessage ::
  "('d, 'hb, 'p) Serializer \<Rightarrow> number \<Rightarrow> number \<Rightarrow> 'd Message
     \<Rightarrow> bool \<times> 'hb RespondHeaderBlocks option
     \<Rightarrow> error + bool \<times> (bool \<times> 'hb RespondHeaderBlocks option)" where
  "getBlocksHeaders_consumeMessage ser startH endH msg vars =
     (case (if type msg = reject_header_blocks then
              (case deserialize_RejectHeaderBlocks ser (data msg) of
                 None \<Rightarrow> Some (Inl DecodeError)
               | Some rPckt \<Rightarrow>
                   if RejectHeaderBlocks.startHeight rPckt = startH
                      \<and> RejectHeaderBlocks.endHeight rPckt = endH
                   then Some (Inr (True, (True, snd vars)))
                   else None)
            else None) of
        Some r \<Rightarrow> r
      | None \<Rightarrow>
          (case (if type msg = respond_header_blocks then
                   (case deserialize_RespondHeaderBlocks ser (data msg) of
                      None \<Rightarrow> Some (Inl DecodeError)
                    | Some rPckt \<Rightarrow>
                        if RespondHeaderBlocks.startHeight rPckt = startH
                           \<and> RespondHeaderBlocks.endHeight rPckt = endH
                        then Some (Inr (True, (fst vars, Some rPckt)))
                        else None)
                 else None) of
             Some r \<Rightarrow> r
           | None \<Rightarrow> Inr (False, vars)))"

function getBlocksHeaders_loop ::
  "('hb, 'p, 'bh, 'ps, 'pcs, 'pc) ProviderUtil \<Rightarrow> 'hb RespondHeaderBlocks \<Rightarrow> nat \<Rightarrow> 'bh list \<Rightarrow> 'bh list" where
  "getBlocksHeaders_loop pu respPckt i headers =
     (if i < length (headerBlocks respPckt)
      then getBlocksHeaders_loop pu respPckt (i + 1)
             (headers @ [serializerHeaderBlockToProviderBlockHeader pu
                           (headerBlocks respPckt ! i)
                           (int (RespondHeaderBlocks.startHeight respPckt) + int i)])
      else headers)"
  by pat_completeness auto
termination
  by (relation "measure (\<lambda>(pu, respPckt, i, headers). length (headerBlocks respPckt) - i)") auto

definition getBlocksHeaders ::
  "('d, 'hb, 'p) Serializer \<Rightarrow> ('hb, 'p, 'bh, 'ps, 'pcs, 'pc) ProviderUtil
     \<Rightarrow> getBlocksHeadersArgs \<Rightarrow> 'd Message list \<Rightarrow> Buffer list \<times> (error + 'bh list option)" where
  "getBlocksHeaders ser pu args inbound =
     (let pckt = \<lparr>RequestHeaderBlocks.startHeight = getBlocksHeadersArgs.startHeight args,
                  RequestHeaderBlocks.endHeight = getBlocksHeadersArgs.endHeight args\<rparr>;
          msgToSend = makeMsg request_header_blocks (RequestHeaderBlocksPckt pckt)
      in case request
           \<lparr>messageToSend = Some msgToSend,
            consumeMessage =
              getBlocksHeaders_consumeMessage ser (getBlocksHeadersArgs.startHeight args)
                (getBlocksHeadersArgs.endHeight args),
            deleteAfterFirstMessageConsumed = True,
            expectedMaxRensponseWait = 15000\<rparr> (False, None) inbound of
           (out, Inl e) \<Rightarrow> (out, Inl e)
         | (out, Inr (returnNull, respPckt)) \<Rightarrow>
             if returnNull then (out, Inr None)
             else (case respPckt of
                     None \<Rightarrow> (out, Inl TypeError)
                   | Some r \<Rightarrow> (out, Inr (Some (getBlocksHeaders_loop pu r 0 [])))))"

subsection \<open>getCoinRemovals\<close>

record getCoinRemovalsArgs =
  height :: number
  headerHash :: string
  coinIds :: "string list option"

text \<open>
  The loop that validates the coin ids, from index \<open>i\<close> on: \<open>None\<close> where the source
  returns \<^verbatim>\<open>null\<close> from inside the loop.
\<close>

function getCoinRemovals_parse ::
  "AddressUtil \<Rightarrow> string list \<Rightarrow> nat \<Rightarrow> string list \<Rightarrow> string list option" where
  "getCoinRemovals_parse au cIds i parsedCoinIds =
     (if i < length cIds
      then (let parsed = validateHashString au (cIds ! i)
            in if length parsed = 0 then None
               else getCoinRemovals_parse au cIds (i + 1) (parsedCoinIds @ [parsed]))
      else Some parsedCoinIds)"
  by pat_completeness auto
termination
  by (relation "measure (\<lambda>(au, cIds, i, parsedCoinIds). length cIds - i)") auto

definition getCoinRemovals_consumeMessage ::
  "('d, 'hb, 'p) Serializer \<Rightarrow> number \<Rightarrow> string \<Rightarrow> 'd Message
     \<Rightarrow> bool \<times> RespondRemovals option
     \<Rightarrow> error + bool \<times> (bool \<times> RespondRemovals option)" where
  "getCoinRemovals_consumeMessage ser h hh msg vars =
     (case (if type msg = reject_removals_request then
              (case deserialize_RejectRemovalsRequest ser (data msg) of
                 None \<Rightarrow> Some (Inl DecodeError)
               | Some rPckt \<Rightarrow>
                   if RejectRemovalsRequest.height rPckt = h
                      \<and> RejectRemovalsRequest.headerHash rPckt = hh
                   then Some (Inr (True, (True, snd vars)))
                   else None)
            else None) of
        Some r \<Rightarrow> r
      | None \<Rightarrow>
          (case (if type msg = respond_removals then
                   (case deserialize_RespondRemovals ser (data msg) of
                      None \<Rightarrow> Some (Inl DecodeError)
                    | Some rPckt \<Rightarrow>
                        if RespondRemovals.headerHash rPckt = hh
                           \<and> RespondRemovals.height rPckt = h
                        then Some (Inr (True, (fst vars, Some rPckt)))
                        else None)
                 else None) of
             Some r \<Rightarrow> r
           | None \<Rightarrow> Inr (False, vars)))"

text \<open>The loop over the entries of the response: the coins that are present.\<close>

fun getCoinRemovals_coins ::
  "('hb, 'p, 'bh, 'ps, 'pcs, 'pc) ProviderUtil \<Rightarrow> (string \<times> Coin option) list \<Rightarrow> 'pc list \<Rightarrow> 'pc list" where
  "getCoinRemovals_coins pu [] cs = cs"
| "getCoinRemovals_coins pu (thing # rest) cs =
     (case snd thing of
        None \<Rightarrow> getCoinRemovals_coins pu rest cs
      | Some c \<Rightarrow> getCoinRemovals_coins pu rest (cs @ [serializerCoinToProviderCoin pu c]))"

definition getCoinRemovals ::
  "AddressUtil \<Rightarrow> ('d, 'hb, 'p) Serializer \<Rightarrow> ('hb, 'p, 'bh, 'ps, 'pcs, 'pc) ProviderUtil
     \<Rightarrow> getCoinRemovalsArgs \<Rightarrow> 'd Message list \<Rightarrow> Buffer list \<times> (error + 'pc list option)" where
  "getCoinRemovals au ser pu args inbound =
     (let hh = validateHashString au (getCoinRemovalsArgs.headerHash args)
      in if length hh = 0 then ([], Inr None)
         else
           (case (case getCoinRemovalsArgs.coinIds args of
                    None \<Rightarrow> Some []
                  | Some cIds \<Rightarrow> getCoinRemovals_parse au cIds 0 []) of
              None \<Rightarrow> ([], Inr None)
            | Some parsedCoinIds \<Rightarrow>
                (let pckt = \<lparr>RequestRemovals.height = getCoinRemovalsArgs.height args,
                             RequestRemovals.headerHash = hh,
                             coinNames = (if getCoinRemovalsArgs.coinIds args \<noteq> None
                                          then Some parsedCoinIds else None)\<rparr>;
                     msgToSend = makeMsg request_removals (RequestRemovalsPckt pckt)
                 in case request
                      \<lparr>messageToSend = Some msgToSend,
                       consumeMessage =
                         getCoinRemovals_consumeMessage ser (getCoinRemovalsArgs.height args) hh,
                       deleteAfterFirstMessageConsumed = True,
                       expectedMaxRensponseWait = 15000\<rparr> (False, None) inbound of
                      (out, Inl e) \<Rightarrow> (out, Inl e)
                    | (out, Inr (returnNull, respPckt)) \<Rightarrow>
                        if returnNull then (out, Inr None)
                        else (case respPckt of
                                None \<Rightarrow> (out, Inl TypeError)
                              | Some r \<Rightarrow>
                                  (out, Inr (Some (getCoinRemovals_coins pu (coins r) [])))))))"

subsection \<open>The operations that the provider does not implement\<close>

text \<open>Each of them throws as its first statement, whatever the provider and the arguments.\<close>

definition getAddress :: "'d LeafletProvider \<Rightarrow> error + string" where
  "getAddress this = Inl (Error ''LeafletProvider does not implement this method.'')"

definition transfer :: "'d LeafletProvider \<Rightarrow> 'a \<Rightarrow> error + bool" where
  "transfer this args = Inl (Error ''LeafletProvider does not implement this method.'')"

definition transferCAT :: "'d LeafletProvider \<Rightarrow> 'a \<Rightarrow> error + bool" where
  "transferCAT this args = Inl (Error ''LeafletProvider does not implement this method.'')"

definition acceptOffer :: "'d LeafletProvider \<Rightarrow> 'a \<Rightarrow> error + bool" where
  "acceptOffer this args = Inl (Error ''LeafletProvider does not implement this method.'')"

definition subscribeToAddressChanges :: "'d LeafletProvider \<Rightarrow> 'a \<Rightarrow> error + unit" where
  "subscribeToAddressChanges this args =
     Inl (Error ''LeafletProvider does not implement this method.'')"

subsection \<open>Concrete collaborators\<close>

text \<open>
  The statements below hold for every address utility, every serializer and every
  provider utility. To run the operations on concrete inputs, simple ones are fixed
  here.
\<close>

text \<open>
  Modelled from the spec: \<^verbatim>\<open>AddressUtil.validateHashString\<close> (its file is not
  among the sources). A hash is valid when it is 32 bytes in hex, that is 64 hex
  digits; the validator answers the empty string for anything else.
\<close>

definition isHexDigit :: "char \<Rightarrow> bool" where
  "isHexDigit c = (c \<in> set ''0123456789abcdef'')"

definition validateHex32 :: "string \<Rightarrow> string" where
  "validateHex32 s = (if length s = 64 \<and> list_all isHexDigit s then s else [])"

text \<open>An address utility with this validator; it decodes no address.\<close>

definition hexAddressUtil :: AddressUtil where
  "hexAddressUtil = \<lparr>addressToPuzzleHash = (\<lambda>a. []), validateHashString = validateHex32\<rparr>"

text \<open>
  A serializer for frames whose payload is the packet itself: deserializing at a class
  succeeds when the payload is a packet of that class and throws otherwise.
\<close>

datatype ('hb, 'p) Payload =
    NewPeakWalletData NewPeakWallet
  | RespondToPhUpdatesData RespondToPhUpdates
  | RespondToCoinUpdatesData RespondToCoinUpdates
  | RejectPuzzleSolutionData RejectPuzzleSolution
  | RespondPuzzleSolutionData "'p RespondPuzzleSolution"
  | RespondChildrenData RespondChildren
  | RejectHeaderBlocksData RejectHeaderBlocks
  | RespondHeaderBlocksData "'hb RespondHeaderBlocks"
  | RejectRemovalsRequestData RejectRemovalsRequest
  | RespondRemovalsData RespondRemovals

definition packetSerializer :: "(('hb, 'p) Payload, 'hb, 'p) Serializer" where
  "packetSerializer =
     \<lparr>deserialize_NewPeakWallet = (\<lambda>d. case d of NewPeakWalletData x \<Rightarrow> Some x | _ \<Rightarrow> None),
      deserialize_RespondToPhUpdates = (\<lambda>d. case d of RespondToPhUpdatesData x \<Rightarrow> Some x | _ \<Rightarrow> None),
      deserialize_RespondToCoinUpdates = (\<lambda>d. case d of RespondToCoinUpdatesData x \<Rightarrow> Some x | _ \<Rightarrow> None),
      deserialize_RejectPuzzleSolution = (\<lambda>d. case d of RejectPuzzleSolutionData x \<Rightarrow> Some x | _ \<Rightarrow> None),
      deserialize_RespondPuzzleSolution = (\<lambda>d. case d of RespondPuzzleSolutionData x \<Rightarrow> Some x | _ \<Rightarrow> None),
      deserialize_RespondChildren = (\<lambda>d. case d of RespondChildrenData x \<Rightarrow> Some x | _ \<Rightarrow> None),
      deserialize_RejectHeaderBlocks = (\<lambda>d. case d of RejectHeaderBlocksData x \<Rightarrow> Some x | _ \<Rightarrow> None),
      deserialize_RespondHeaderBlocks = (\<lambda>d. case d of RespondHeaderBlocksData x \<Rightarrow> Some x | _ \<Rightarrow> None),
      deserialize_RejectRemovalsRequest = (\<lambda>d. case d of RejectRemovalsRequestData x \<Rightarrow> Some x | _ \<Rightarrow> None),
      deserialize_RespondRemovals = (\<lambda>d. case d of RespondRemovalsData x \<Rightarrow> Some x | _ \<Rightarrow> None)\<rparr>"

text \<open>
  A provider utility whose public types are the serializer's own; a block header is the
  header block paired with the height it is given.
\<close>

definition plainProviderUtil ::
  "('hb, 'p, BigNumber \<times> 'hb, 'p PuzzleSolutionResponse, CoinState, Coin) ProviderUtil" where
  "plainProviderUtil =
     \<lparr>serializerHeaderBlockToProviderBlockHeader = (\<lambda>hb h. (h, hb)),
      serializerPuzzleSolutionResponseToProviderPuzzleSolution = (\<lambda>r. r),
      serializerCoinStateToProviderCoinState = (\<lambda>cs. cs),
      serializerCoinToProviderCoin = (\<lambda>c. c)\<rparr>"

text \<open>Two hashes of 32 bytes.\<close>

definition hashA :: string where
  "hashA = replicate 64 CHR ''a''"

definition hashB :: string where
  "hashB = replicate 64 CHR ''b''"

text \<open>Two coin states: a child of the coin \<open>hashA\<close> and a child of the coin \<open>hashB\<close>.\<close>

definition childOfA :: CoinState where
  "childOfA = \<lparr>coin = \<lparr>parentCoinInfo = hashA, puzzleHash = hashB, amount = 7\<rparr>,
               spentHeight = None, createdHeight = Some 5\<rparr>"

definition childOfB :: CoinState where
  "childOfB = \<lparr>coin = \<lparr>parentCoinInfo = hashB, puzzleHash = hashB, amount = 1\<rparr>,
               spentHeight = None, createdHeight = Some 5\<rparr>"

text \<open>A coin state with the given puzzle hash, amount and spent height.\<close>

definition coinStateOf :: "string \<Rightarrow> nat \<Rightarrow> number option \<Rightarrow> CoinState" where
  "coinStateOf ph a spent =
     \<lparr>coin = \<lparr>parentCoinInfo = hashB, puzzleHash = ph, amount = a\<rparr>,
      spentHeight = spent, createdHeight = Some 1\<rparr>"

subsection \<open>Frames that a predicate consumes\<close>

text \<open>
  A predicate consumes a frame when it answers true. It declines a frame when it
  answers false and leaves the variables of the caller as they were, or throws.
\<close>

definition consumes :: "('d Message \<Rightarrow> 'v \<Rightarrow> error + bool \<times> 'v) \<Rightarrow> 'v \<Rightarrow> 'd Message \<Rightarrow> bool" where
  "consumes c v msg = (case c msg v of Inl e \<Rightarrow> False | Inr (consumed, v') \<Rightarrow> consumed)"

definition declines :: "('d Message \<Rightarrow> 'v \<Rightarrow> error + bool \<times> 'v) \<Rightarrow> 'v \<Rightarrow> 'd Message \<Rightarrow> bool" where
  "declines c v msg = (case c msg v of Inl e \<Rightarrow> True | Inr (consumed, v') \<Rightarrow> \<not> consumed \<and> v' = v)"

declare getBalance_loop.simps [simp del]
declare getCoinChildren_loop.simps [simp del]
declare getBlocksHeaders_loop.simps [simp del]
declare getCoinRemovals_parse.simps [simp del]

section \<open>Properties of the message manager\<close>

lemma receive_append: "receive (xs @ ys) st = receive ys (receive xs st)"
  by (induction xs arbitrary: st) simp_all

lemma onMessage_no_filters: "filters mm = [] \<Longrightarrow> onMessage msg (mm, v) = (mm, v)"
  by (cases mm) (simp add: onMessage_def)

lemma receive_no_filters: "filters mm = [] \<Longrightarrow> receive msgs (mm, v) = (mm, v)"
  by (induction msgs) (simp_all add: onMessage_no_filters)

lemma onMessage_declined:
  "filters mm = [f] \<Longrightarrow> declines (consumeMessage f) v msg \<Longrightarrow> onMessage msg (mm, v) = (mm, v)"
  by (auto simp: onMessage_def declines_def split: sum.splits prod.splits)

lemma receive_declined:
  "filters mm = [f] \<Longrightarrow> list_all (declines (consumeMessage f) v) msgs
    \<Longrightarrow> receive msgs (mm, v) = (mm, v)"
  by (induction msgs) (simp_all add: onMessage_declined)

lemma onMessage_consumed:
  "filters mm = [f] \<Longrightarrow> deleteAfterFirstMessageConsumed f
    \<Longrightarrow> consumeMessage f msg v = Inr (True, v')
    \<Longrightarrow> onMessage msg (mm, v) = (mm\<lparr>filters := []\<rparr>, v')"
  by (simp add: onMessage_def)

text \<open>
  A request whose predicate declines every frame times out, having sent its frame.
\<close>

lemma request_timeout:
  "list_all (declines (consumeMessage f) v) inbound
    \<Longrightarrow> request f v inbound = (case messageToSend f of None \<Rightarrow> [] | Some b \<Rightarrow> [b], Inl Timeout)"
  by (simp add: request_def registerFilter_def newMessageManager_def
      receive_declined [where f = f])

text \<open>
  A request resumes at the first frame that its predicate consumes, with the variables
  as the predicate left them; the frames after it no longer reach the filter.
\<close>

lemma request_consumed:
  assumes "deleteAfterFirstMessageConsumed f"
    and "list_all (declines (consumeMessage f) v) pre"
    and "consumeMessage f msg v = Inr (True, v')"
  shows "request f v (pre @ msg # post)
    = (case messageToSend f of None \<Rightarrow> [] | Some b \<Rightarrow> [b], Inr v')"
  using assms
  by (simp add: request_def registerFilter_def newMessageManager_def receive_append
      receive_declined [where f = f] onMessage_consumed [where f = f] receive_no_filters)

section \<open>The concrete collaborators on concrete hashes\<close>

lemma validateHex32_hashA [simp]: "validateHex32 hashA = hashA"
  by (simp add: validateHex32_def hashA_def isHexDigit_def list_all_length)

lemma validateHex32_hashB [simp]: "validateHex32 hashB = hashB"
  by (simp add: validateHex32_def hashB_def isHexDigit_def list_all_length)

lemma length_hashA [simp]: "length hashA = 64"
  by (simp add: hashA_def)

lemma length_hashB [simp]: "length hashB = 64"
  by (simp add: hashB_def)

lemma hashA_neq_hashB [simp]: "hashA \<noteq> hashB" "hashB \<noteq> hashA"
  by (simp_all add: hashA_def hashB_def)

lemma hash_nonempty [simp]: "hashA \<noteq> []" "hashB \<noteq> []" "[] \<noteq> hashA" "[] \<noteq> hashB"
  by (simp_all add: hashA_def hashB_def)

lemma validateHex32_zz [simp]: "validateHex32 ''zz'' = []"
  by (simp add: validateHex32_def)

section \<open>Unsupported operations\<close>

text \<open>
  C9. Every invocation of \<open>getAddress\<close>, \<open>transfer\<close>, \<open>transferCAT\<close>, \<open>acceptOffer\<close> or
  \<open>subscribeToAddressChanges\<close> fails: it throws the error "LeafletProvider does not
  implement this method.", for every argument and every state of the provider, connected
  or not.
\<close>

theorem unsupported_operations_throw:
  "getAddress this = Inl (Error ''LeafletProvider does not implement this method.'')
   \<and> transfer this args1 = Inl (Error ''LeafletProvider does not implement this method.'')
   \<and> transferCAT this args2 = Inl (Error ''LeafletProvider does not implement this method.'')
   \<and> acceptOffer this args3 = Inl (Error ''LeafletProvider does not implement this method.'')
   \<and> subscribeToAddressChanges this args4
        = Inl (Error ''LeafletProvider does not implement this method.'')"
  by (simp add: getAddress_def transfer_def transferCAT_def acceptOffer_def
      subscribeToAddressChanges_def)

section \<open>getCoinChildren\<close>

lemma list_all_not_consumed:
  "(\<And>msg. \<not> consumes c v msg \<Longrightarrow> declines c v msg)
    \<Longrightarrow> list_all (\<lambda>msg. \<not> consumes c v msg) pre \<Longrightarrow> list_all (declines c v) pre"
  by (induction pre) simp_all

text \<open>The loop translates every coin state from index \<open>i\<close> on, in order.\<close>

lemma getCoinChildren_loop_map:
  "getCoinChildren_loop pu xs i acc
     = acc @ map (serializerCoinStateToProviderCoinState pu) (drop i xs)"
proof (induction pu xs i acc rule: getCoinChildren_loop.induct)
  case (1 pu xs i acc)
  show ?case
  proof (cases "i < length xs")
    case True
    then have "drop i xs = xs ! i # drop (i + 1) xs"
      by (simp add: Cons_nth_drop_Suc)
    with True 1 show ?thesis
      by (subst getCoinChildren_loop.simps) simp
  next
    case False
    then show ?thesis
      by (subst getCoinChildren_loop.simps) simp
  qed
qed

lemma getCoinChildren_not_consumed:
  "\<not> consumes (getCoinChildren_consumeMessage ser cId) v msg
     \<Longrightarrow> declines (getCoinChildren_consumeMessage ser cId) v msg"
  by (auto simp: consumes_def declines_def getCoinChildren_consumeMessage_def
      split: if_splits option.splits)

lemma getCoinChildren_consumed:
  assumes valid: "length (validateHashString au (getCoinChildrenArgs.coinId args)) \<noteq> 0"
    and pre: "list_all (\<lambda>m. \<not> consumes (getCoinChildren_consumeMessage ser
                (validateHashString au (getCoinChildrenArgs.coinId args))) None m) pre"
    and msg: "getCoinChildren_consumeMessage ser
                (validateHashString au (getCoinChildrenArgs.coinId args)) msg None
              = Inr (True, Some rPckt)"
  shows "getCoinChildren au ser pu args (pre @ msg # post)
    = ([makeMsg request_children (RequestChildrenPckt
          \<lparr>RequestChildren.coinName = validateHashString au (getCoinChildrenArgs.coinId args)\<rparr>)],
       Inr (map (serializerCoinStateToProviderCoinState pu) (RespondChildren.coinStates rPckt)))"
proof -
  let ?c = "getCoinChildren_consumeMessage ser
              (validateHashString au (getCoinChildrenArgs.coinId args))"
  have "list_all (declines ?c None) pre"
    using pre by (rule list_all_not_consumed [rotated]) (rule getCoinChildren_not_consumed)
  then show ?thesis
    using valid msg
    by (simp add: getCoinChildren_def Let_def request_consumed getCoinChildren_loop_map)
qed

text \<open>
  C10. When the coin id fails validation, \<open>getCoinChildren\<close> returns the empty list
  and sends no frame, whatever arrives. That is also what it returns for a valid coin id
  (\<open>args'\<close>) whose answer holds no coin state, so the caller cannot tell the two apart by
  the value returned.
\<close>

theorem getCoinChildren_invalid_coinId_empty:
  assumes "length (validateHashString au (getCoinChildrenArgs.coinId args)) = 0"
  shows "getCoinChildren au ser pu args inbound = ([], Inr [])
    \<and> (length (validateHashString au (getCoinChildrenArgs.coinId args')) \<noteq> 0
        \<and> list_all (\<lambda>m. \<not> consumes (getCoinChildren_consumeMessage ser
              (validateHashString au (getCoinChildrenArgs.coinId args'))) None m) pre
        \<and> type msg = respond_children
        \<and> deserialize_RespondChildren ser (data msg) = Some rPckt
        \<and> RespondChildren.coinStates rPckt = []
        \<longrightarrow> snd (getCoinChildren au ser pu args' (pre @ msg # post))
            = snd (getCoinChildren au ser pu args inbound))"
proof -
  have invalid: "getCoinChildren au ser pu args inbound = ([], Inr [])"
    using assms by (simp add: getCoinChildren_def)
  have "snd (getCoinChildren au ser pu args' (pre @ msg # post)) = Inr []"
    if "length (validateHashString au (getCoinChildrenArgs.coinId args')) \<noteq> 0"
      and "list_all (\<lambda>m. \<not> consumes (getCoinChildren_consumeMessage ser
              (validateHashString au (getCoinChildrenArgs.coinId args'))) None m) pre"
      and "type msg = respond_children"
      and "deserialize_RespondChildren ser (data msg) = Some rPckt"
      and "RespondChildren.coinStates rPckt = []"
  proof -
    have "getCoinChildren_consumeMessage ser
            (validateHashString au (getCoinChildrenArgs.coinId args')) msg None
          = Inr (True, Some rPckt)"
      using that by (simp add: getCoinChildren_consumeMessage_def)
    from getCoinChildren_consumed [OF that(1) that(2) this, where pu = pu and post = post] that(5)
    show ?thesis by simp
  qed
  with invalid show ?thesis by simp
qed

theorem getCoinChildren_invalid_coinId_empty_witness:
  "getCoinChildren hexAddressUtil (packetSerializer :: ((nat, nat) Payload, nat, nat) Serializer)
      plainProviderUtil \<lparr>getCoinChildrenArgs.coinId = ''zz''\<rparr>
      [\<lparr>type = respond_children, data = RespondChildrenData \<lparr>RespondChildren.coinStates = []\<rparr>\<rparr>]
    = ([], Inr [])
   \<and> snd (getCoinChildren hexAddressUtil
        (packetSerializer :: ((nat, nat) Payload, nat, nat) Serializer)
        plainProviderUtil \<lparr>getCoinChildrenArgs.coinId = hashA\<rparr>
        [\<lparr>type = respond_children,
          data = RespondChildrenData \<lparr>RespondChildren.coinStates = []\<rparr>\<rparr>])
    = Inr []"
  using getCoinChildren_invalid_coinId_empty
    [of hexAddressUtil "\<lparr>getCoinChildrenArgs.coinId = ''zz''\<rparr>"
      "packetSerializer :: ((nat, nat) Payload, nat, nat) Serializer" plainProviderUtil
      "[\<lparr>type = respond_children, data = RespondChildrenData \<lparr>RespondChildren.coinStates = []\<rparr>\<rparr>]"
      "\<lparr>getCoinChildrenArgs.coinId = hashA\<rparr>" "[]"
      "\<lparr>type = respond_children, data = RespondChildrenData \<lparr>RespondChildren.coinStates = []\<rparr>\<rparr>"
      "\<lparr>RespondChildren.coinStates = []\<rparr>" "[]"]
  by (simp add: hexAddressUtil_def packetSerializer_def)

text \<open>
  C6. For a call of \<open>getCoinChildren\<close> with a valid coin id \<open>cId\<close>: the predicate
  consumes a \<open>respond_children\<close> frame exactly when the list of coin states it carries
  is empty or the first entry's \<open>parentCoinInfo\<close> is \<open>cId\<close>, and it consumes no other
  frame. The operation sends one \<open>request_children\<close> frame and returns the translation
  of every coin state of the first frame consumed, in order; an empty list gives the
  empty list, not \<open>null\<close>.
\<close>

theorem getCoinChildren_first_child_parent:
  assumes cId: "cId = validateHashString au (getCoinChildrenArgs.coinId args)"
    and valid: "length cId \<noteq> 0"
  shows "(type msg = respond_children \<and> deserialize_RespondChildren ser (data msg) = Some rPckt
          \<longrightarrow> (consumes (getCoinChildren_consumeMessage ser cId) v msg
               \<longleftrightarrow> (RespondChildren.coinStates rPckt = []
                    \<or> parentCoinInfo (coin (RespondChildren.coinStates rPckt ! 0)) = cId)))
    \<and> (type msg \<noteq> respond_children \<or> deserialize_RespondChildren ser (data msg) = None
          \<longrightarrow> \<not> consumes (getCoinChildren_consumeMessage ser cId) v msg)
    \<and> (list_all (\<lambda>m. \<not> consumes (getCoinChildren_consumeMessage ser cId) None m) pre
        \<and> type msg = respond_children
        \<and> deserialize_RespondChildren ser (data msg) = Some rPckt
        \<and> (RespondChildren.coinStates rPckt = []
            \<or> parentCoinInfo (coin (RespondChildren.coinStates rPckt ! 0)) = cId)
          \<longrightarrow> getCoinChildren au ser pu args (pre @ msg # post)
                = ([makeMsg request_children (RequestChildrenPckt \<lparr>RequestChildren.coinName = cId\<rparr>)],
                   Inr (map (serializerCoinStateToProviderCoinState pu)
                          (RespondChildren.coinStates rPckt)))
              \<and> (RespondChildren.coinStates rPckt = []
                   \<longrightarrow> snd (getCoinChildren au ser pu args (pre @ msg # post)) = Inr []))"
proof (intro conjI impI)
  assume "type msg = respond_children \<and> deserialize_RespondChildren ser (data msg) = Some rPckt"
  then show "consumes (getCoinChildren_consumeMessage ser cId) v msg
      \<longleftrightarrow> (RespondChildren.coinStates rPckt = []
           \<or> parentCoinInfo (coin (RespondChildren.coinStates rPckt ! 0)) = cId)"
    by (simp add: consumes_def getCoinChildren_consumeMessage_def)
next
  assume "type msg \<noteq> respond_children \<or> deserialize_RespondChildren ser (data msg) = None"
  then show "\<not> consumes (getCoinChildren_consumeMessage ser cId) v msg"
    by (auto simp: consumes_def getCoinChildren_consumeMessage_def)
next
  assume h: "list_all (\<lambda>m. \<not> consumes (getCoinChildren_consumeMessage ser cId) None m) pre
        \<and> type msg = respond_children
        \<and> deserialize_RespondChildren ser (data msg) = Some rPckt
        \<and> (RespondChildren.coinStates rPckt = []
            \<or> parentCoinInfo (coin (RespondChildren.coinStates rPckt ! 0)) = cId)"
  then have "getCoinChildren_consumeMessage ser cId msg None = Inr (True, Some rPckt)"
    by (simp add: getCoinChildren_consumeMessage_def)
  with h valid have r: "getCoinChildren au ser pu args (pre @ msg # post)
      = ([makeMsg request_children (RequestChildrenPckt \<lparr>RequestChildren.coinName = cId\<rparr>)],
         Inr (map (serializerCoinStateToProviderCoinState pu) (RespondChildren.coinStates rPckt)))"
    unfolding cId by (intro getCoinChildren_consumed) simp_all
  then show "getCoinChildren au ser pu args (pre @ msg # post)
      = ([makeMsg request_children (RequestChildrenPckt \<lparr>RequestChildren.coinName = cId\<rparr>)],
         Inr (map (serializerCoinStateToProviderCoinState pu) (RespondChildren.coinStates rPckt)))" .
  assume "RespondChildren.coinStates rPckt = []"
  with r show "snd (getCoinChildren au ser pu args (pre @ msg # post)) = Inr []"
    by simp
qed

theorem getCoinChildren_first_child_parent_witness:
  "getCoinChildren hexAddressUtil (packetSerializer :: ((nat, nat) Payload, nat, nat) Serializer)
      plainProviderUtil \<lparr>getCoinChildrenArgs.coinId = hashA\<rparr>
      [\<lparr>type = respond_children,
        data = RespondChildrenData \<lparr>RespondChildren.coinStates = [childOfB]\<rparr>\<rparr>,
       \<lparr>type = respond_children,
        data = RespondChildrenData \<lparr>RespondChildren.coinStates = [childOfA, childOfB]\<rparr>\<rparr>]
    = ([makeMsg request_children (RequestChildrenPckt \<lparr>RequestChildren.coinName = hashA\<rparr>)],
       Inr [childOfA, childOfB])
   \<and> consumes
        (getCoinChildren_consumeMessage
           (packetSerializer :: ((nat, nat) Payload, nat, nat) Serializer) hashA) None
        \<lparr>type = respond_children,
         data = RespondChildrenData \<lparr>RespondChildren.coinStates = [childOfA, childOfB]\<rparr>\<rparr>
   \<and> \<not> consumes
        (getCoinChildren_consumeMessage
           (packetSerializer :: ((nat, nat) Payload, nat, nat) Serializer) hashA) None
        \<lparr>type = respond_children,
         data = NewPeakWalletData \<lparr>NewPeakWallet.height = 3\<rparr>\<rparr>"
  using
    getCoinChildren_first_child_parent
      [of hashA hexAddressUtil "\<lparr>getCoinChildrenArgs.coinId = hashA\<rparr>"
        "\<lparr>type = respond_children,
          data = RespondChildrenData \<lparr>RespondChildren.coinStates = [childOfA, childOfB]\<rparr>\<rparr>"
        "packetSerializer :: ((nat, nat) Payload, nat, nat) Serializer"
        "\<lparr>RespondChildren.coinStates = [childOfA, childOfB]\<rparr>" None
        "[\<lparr>type = respond_children,
           data = RespondChildrenData \<lparr>RespondChildren.coinStates = [childOfB]\<rparr>\<rparr>]"
        plainProviderUtil "[]"]
    getCoinChildren_first_child_parent
      [of hashA hexAddressUtil "\<lparr>getCoinChildrenArgs.coinId = hashA\<rparr>"
        "\<lparr>type = respond_children,
          data = NewPeakWalletData \<lparr>NewPeakWallet.height = 3\<rparr>\<rparr>"
        "packetSerializer :: ((nat, nat) Payload, nat, nat) Serializer"
        "\<lparr>RespondChildren.coinStates = []\<rparr>" None "[]" plainProviderUtil "[]"]
  by (simp add: hexAddressUtil_def packetSerializer_def plainProviderUtil_def consumes_def
      getCoinChildren_consumeMessage_def childOfA_def childOfB_def)

section \<open>getPuzzleSolution\<close>

lemma getPuzzleSolution_not_consumed:
  "\<not> consumes (getPuzzleSolution_consumeMessage ser cId h) v msg
     \<Longrightarrow> declines (getPuzzleSolution_consumeMessage ser cId h) v msg"
  by (auto simp: consumes_def declines_def getPuzzleSolution_consumeMessage_def
      split: if_splits option.splits)

lemma getPuzzleSolution_consumes_iff:
  "consumes (getPuzzleSolution_consumeMessage ser cId h) v msg \<longleftrightarrow>
     (type msg = reject_puzzle_solution
      \<and> (\<exists>rPckt. deserialize_RejectPuzzleSolution ser (data msg) = Some rPckt
            \<and> RejectPuzzleSolution.coinName rPckt = cId \<and> RejectPuzzleSolution.height rPckt = h))
     \<or> (type msg = respond_puzzle_solution
      \<and> (\<exists>rPckt. deserialize_RespondPuzzleSolution ser (data msg) = Some rPckt
            \<and> PuzzleSolutionResponse.coinName (response rPckt) = cId
            \<and> PuzzleSolutionResponse.height (response rPckt) = h))"
  by (auto simp: consumes_def getPuzzleSolution_consumeMessage_def
      split: if_splits option.splits)

lemma getPuzzleSolution_consumed:
  assumes valid: "length (validateHashString au (getPuzzleSolutionArgs.coinId args)) \<noteq> 0"
    and pre: "list_all (\<lambda>m. \<not> consumes (getPuzzleSolution_consumeMessage ser
                (validateHashString au (getPuzzleSolutionArgs.coinId args))
                (getPuzzleSolutionArgs.height args)) (None, False) m) pre"
    and msg: "getPuzzleSolution_consumeMessage ser
                (validateHashString au (getPuzzleSolutionArgs.coinId args))
                (getPuzzleSolutionArgs.height args) msg (None, False) = Inr (True, vars)"
  shows "request
           \<lparr>messageToSend = Some (makeMsg request_puzzle_solution (RequestPuzzleSolutionPckt
               \<lparr>RequestPuzzleSolution.coinName = validateHashString au (getPuzzleSolutionArgs.coinId args),
                RequestPuzzleSolution.height = getPuzzleSolutionArgs.height args\<rparr>)),
            consumeMessage = getPuzzleSolution_consumeMessage ser
                (validateHashString au (getPuzzleSolutionArgs.coinId args))
                (getPuzzleSolutionArgs.height args),
            deleteAfterFirstMessageConsumed = True,
            expectedMaxRensponseWait = 15000\<rparr> (None, False) (pre @ msg # post)
    = ([makeMsg request_puzzle_solution (RequestPuzzleSolutionPckt
          \<lparr>RequestPuzzleSolution.coinName = validateHashString au (getPuzzleSolutionArgs.coinId args),
           RequestPuzzleSolution.height = getPuzzleSolutionArgs.height args\<rparr>)],
       Inr vars)"
proof -
  let ?c = "getPuzzleSolution_consumeMessage ser
              (validateHashString au (getPuzzleSolutionArgs.coinId args))
              (getPuzzleSolutionArgs.height args)"
  have "list_all (declines ?c (None, False)) pre"
    using pre by (rule list_all_not_consumed [rotated]) (rule getPuzzleSolution_not_consumed)
  then show ?thesis
    using msg by (simp add: request_consumed)
qed

text \<open>
  C3. For a call of \<open>getPuzzleSolution\<close> with a valid coin id \<open>cId\<close> and height \<open>h\<close>:
  the predicate consumes a frame exactly when it is a \<open>reject_puzzle_solution\<close> frame
  with \<open>coinName = cId\<close> and \<open>height = h\<close>, or a \<open>respond_puzzle_solution\<close> frame
  whose response has \<open>coinName = cId\<close> and \<open>height = h\<close>; every other frame is left
  alone. When the first frame consumed is such a reject frame the operation returns
  \<open>null\<close>; when it is such a respond frame the operation returns the translation of
  its response.
\<close>

theorem getPuzzleSolution_accepts_matching:
  assumes cId: "cId = validateHashString au (getPuzzleSolutionArgs.coinId args)"
    and h: "h = getPuzzleSolutionArgs.height args"
    and valid: "length cId \<noteq> 0"
  shows "(consumes (getPuzzleSolution_consumeMessage ser cId h) v msg \<longleftrightarrow>
           (type msg = reject_puzzle_solution
            \<and> (\<exists>rPckt. deserialize_RejectPuzzleSolution ser (data msg) = Some rPckt
                  \<and> RejectPuzzleSolution.coinName rPckt = cId
                  \<and> RejectPuzzleSolution.height rPckt = h))
           \<or> (type msg = respond_puzzle_solution
            \<and> (\<exists>rPckt. deserialize_RespondPuzzleSolution ser (data msg) = Some rPckt
                  \<and> PuzzleSolutionResponse.coinName (response rPckt) = cId
                  \<and> PuzzleSolutionResponse.height (response rPckt) = h)))
    \<and> (list_all (\<lambda>m. \<not> consumes (getPuzzleSolution_consumeMessage ser cId h) (None, False) m) pre
        \<and> type msg = reject_puzzle_solution
        \<and> deserialize_RejectPuzzleSolution ser (data msg) = Some rej
        \<and> RejectPuzzleSolution.coinName rej = cId \<and> RejectPuzzleSolution.height rej = h
          \<longrightarrow> getPuzzleSolution au ser pu args (pre @ msg # post)
              = ([makeMsg request_puzzle_solution (RequestPuzzleSolutionPckt
                    \<lparr>RequestPuzzleSolution.coinName = cId, RequestPuzzleSolution.height = h\<rparr>)],
                 Inr None))
    \<and> (list_all (\<lambda>m. \<not> consumes (getPuzzleSolution_consumeMessage ser cId h) (None, False) m) pre
        \<and> type msg = respond_puzzle_solution
        \<and> deserialize_RespondPuzzleSolution ser (data msg) = Some resp
        \<and> PuzzleSolutionResponse.coinName (response resp) = cId
        \<and> PuzzleSolutionResponse.height (response resp) = h
          \<longrightarrow> getPuzzleSolution au ser pu args (pre @ msg # post)
              = ([makeMsg request_puzzle_solution (RequestPuzzleSolutionPckt
                    \<lparr>RequestPuzzleSolution.coinName = cId, RequestPuzzleSolution.height = h\<rparr>)],
                 Inr (Some (serializerPuzzleSolutionResponseToProviderPuzzleSolution pu
                              (response resp)))))"
proof (intro conjI impI)
  show "consumes (getPuzzleSolution_consumeMessage ser cId h) v msg \<longleftrightarrow>
           (type msg = reject_puzzle_solution
            \<and> (\<exists>rPckt. deserialize_RejectPuzzleSolution ser (data msg) = Some rPckt
                  \<and> RejectPuzzleSolution.coinName rPckt = cId
                  \<and> RejectPuzzleSolution.height rPckt = h))
           \<or> (type msg = respond_puzzle_solution
            \<and> (\<exists>rPckt. deserialize_RespondPuzzleSolution ser (data msg) = Some rPckt
                  \<and> PuzzleSolutionResponse.coinName (response rPckt) = cId
                  \<and> PuzzleSolutionResponse.height (response rPckt) = h))"
    by (rule getPuzzleSolution_consumes_iff)
next
  assume a: "list_all (\<lambda>m. \<not> consumes (getPuzzleSolution_consumeMessage ser cId h) (None, False) m) pre
        \<and> type msg = reject_puzzle_solution
        \<and> deserialize_RejectPuzzleSolution ser (data msg) = Some rej
        \<and> RejectPuzzleSolution.coinName rej = cId \<and> RejectPuzzleSolution.height rej = h"
  then have "getPuzzleSolution_consumeMessage ser cId h msg (None, False) = Inr (True, (None, True))"
    by (simp add: getPuzzleSolution_consumeMessage_def)
  with a valid have "request
           \<lparr>messageToSend = Some (makeMsg request_puzzle_solution (RequestPuzzleSolutionPckt
               \<lparr>RequestPuzzleSolution.coinName = cId, RequestPuzzleSolution.height = h\<rparr>)),
            consumeMessage = getPuzzleSolution_consumeMessage ser cId h,
            deleteAfterFirstMessageConsumed = True,
            expectedMaxRensponseWait = 15000\<rparr> (None, False) (pre @ msg # post)
    = ([makeMsg request_puzzle_solution (RequestPuzzleSolutionPckt
          \<lparr>RequestPuzzleSolution.coinName = cId, RequestPuzzleSolution.height = h\<rparr>)],
       Inr (None, True))"
    unfolding cId h by (intro getPuzzleSolution_consumed) simp_all
  with valid show "getPuzzleSolution au ser pu args (pre @ msg # post)
              = ([makeMsg request_puzzle_solution (RequestPuzzleSolutionPckt
                    \<lparr>RequestPuzzleSolution.coinName = cId, RequestPuzzleSolution.height = h\<rparr>)],
                 Inr None)"
    by (simp add: getPuzzleSolution_def Let_def cId [symmetric] h [symmetric])
next
  assume a: "list_all (\<lambda>m. \<not> consumes (getPuzzleSolution_consumeMessage ser cId h) (None, False) m) pre
        \<and> type msg = respond_puzzle_solution
        \<and> deserialize_RespondPuzzleSolution ser (data msg) = Some resp
        \<and> PuzzleSolutionResponse.coinName (response resp) = cId
        \<and> PuzzleSolutionResponse.height (response resp) = h"
  then have "getPuzzleSolution_consumeMessage ser cId h msg (None, False)
      = Inr (True, (Some (response resp), False))"
    by (simp add: getPuzzleSolution_consumeMessage_def)
  with a valid have "request
           \<lparr>messageToSend = Some (makeMsg request_puzzle_solution (RequestPuzzleSolutionPckt
               \<lparr>RequestPuzzleSolution.coinName = cId, RequestPuzzleSolution.height = h\<rparr>)),
            consumeMessage = getPuzzleSolution_consumeMessage ser cId h,
            deleteAfterFirstMessageConsumed = True,
            expectedMaxRensponseWait = 15000\<rparr> (None, False) (pre @ msg # post)
    = ([makeMsg request_puzzle_solution (RequestPuzzleSolutionPckt
          \<lparr>RequestPuzzleSolution.coinName = cId, RequestPuzzleSolution.height = h\<rparr>)],
       Inr (Some (response resp), False))"
    unfolding cId h by (intro getPuzzleSolution_consumed) simp_all
  with valid show "getPuzzleSolution au ser pu args (pre @ msg # post)
              = ([makeMsg request_puzzle_solution (RequestPuzzleSolutionPckt
                    \<lparr>RequestPuzzleSolution.coinName = cId, RequestPuzzleSolution.height = h\<rparr>)],
                 Inr (Some (serializerPuzzleSolutionResponseToProviderPuzzleSolution pu
                              (response resp))))"
    by (simp add: getPuzzleSolution_def Let_def cId [symmetric] h [symmetric])
qed

theorem getPuzzleSolution_accepts_matching_witness:
  "getPuzzleSolution hexAddressUtil (packetSerializer :: ((nat, nat) Payload, nat, nat) Serializer)
      plainProviderUtil \<lparr>getPuzzleSolutionArgs.coinId = hashA, getPuzzleSolutionArgs.height = 10\<rparr>
      [\<lparr>type = reject_puzzle_solution,
        data = RejectPuzzleSolutionData
                 \<lparr>RejectPuzzleSolution.coinName = hashA, RejectPuzzleSolution.height = 11\<rparr>\<rparr>,
       \<lparr>type = respond_puzzle_solution,
        data = RespondPuzzleSolutionData
                 \<lparr>response = \<lparr>PuzzleSolutionResponse.coinName = hashA,
                               PuzzleSolutionResponse.height = 10,
                               puzzle = 1, solution = 2\<rparr>\<rparr>\<rparr>]
    = ([makeMsg request_puzzle_solution (RequestPuzzleSolutionPckt
          \<lparr>RequestPuzzleSolution.coinName = hashA, RequestPuzzleSolution.height = 10\<rparr>)],
       Inr (Some \<lparr>PuzzleSolutionResponse.coinName = hashA, PuzzleSolutionResponse.height = 10,
                  puzzle = 1, solution = 2\<rparr>))
   \<and> getPuzzleSolution hexAddressUtil (packetSerializer :: ((nat, nat) Payload, nat, nat) Serializer)
      plainProviderUtil \<lparr>getPuzzleSolutionArgs.coinId = hashA, getPuzzleSolutionArgs.height = 10\<rparr>
      [\<lparr>type = reject_puzzle_solution,
        data = RejectPuzzleSolutionData
                 \<lparr>RejectPuzzleSolution.coinName = hashA, RejectPuzzleSolution.height = 10\<rparr>\<rparr>]
    = ([makeMsg request_puzzle_solution (RequestPuzzleSolutionPckt
          \<lparr>RequestPuzzleSolution.coinName = hashA, RequestPuzzleSolution.height = 10\<rparr>)],
       Inr None)"
  using
    getPuzzleSolution_accepts_matching
      [where au = hexAddressUtil
        and ser = "packetSerializer :: ((nat, nat) Payload, nat, nat) Serializer"
        and pu = plainProviderUtil
        and args = "\<lparr>getPuzzleSolutionArgs.coinId = hashA, getPuzzleSolutionArgs.height = 10\<rparr>"
        and cId = hashA and h = 10
        and pre = "[\<lparr>type = reject_puzzle_solution,
                     data = RejectPuzzleSolutionData
                       \<lparr>RejectPuzzleSolution.coinName = hashA, RejectPuzzleSolution.height = 11\<rparr>\<rparr>]"
        and msg = "\<lparr>type = respond_puzzle_solution,
                    data = RespondPuzzleSolutionData
                      \<lparr>response = \<lparr>PuzzleSolutionResponse.coinName = hashA,
                                    PuzzleSolutionResponse.height = 10,
                                    puzzle = 1, solution = 2\<rparr>\<rparr>\<rparr>"
        and resp = "\<lparr>response = \<lparr>PuzzleSolutionResponse.coinName = hashA,
                                    PuzzleSolutionResponse.height = 10,
                                    puzzle = 1, solution = 2\<rparr>\<rparr>"
        and post = "[]"]
    getPuzzleSolution_accepts_matching
      [where au = hexAddressUtil
        and ser = "packetSerializer :: ((nat, nat) Payload, nat, nat) Serializer"
        and pu = plainProviderUtil
        and args = "\<lparr>getPuzzleSolutionArgs.coinId = hashA, getPuzzleSolutionArgs.height = 10\<rparr>"
        and cId = hashA and h = 10
        and pre = "[]"
        and msg = "\<lparr>type = reject_puzzle_solution,
                    data = RejectPuzzleSolutionData
                      \<lparr>RejectPuzzleSolution.coinName = hashA, RejectPuzzleSolution.height = 10\<rparr>\<rparr>"
        and rej = "\<lparr>RejectPuzzleSolution.coinName = hashA, RejectPuzzleSolution.height = 10\<rparr>"
        and post = "[]"]
  by (simp add: hexAddressUtil_def packetSerializer_def plainProviderUtil_def consumes_def
      getPuzzleSolution_consumeMessage_def)

section \<open>getBlocksHeaders\<close>

text \<open>The loop translates the header blocks from index \<open>i\<close> on, each at its height.\<close>

lemma getBlocksHeaders_loop_map:
  "getBlocksHeaders_loop pu r i acc
     = acc @ map (\<lambda>j. serializerHeaderBlockToProviderBlockHeader pu (headerBlocks r ! j)
                         (int (RespondHeaderBlocks.startHeight r) + int j))
               [i..<length (headerBlocks r)]"
proof (induction pu r i acc rule: getBlocksHeaders_loop.induct)
  case (1 pu r i acc)
  show ?case
  proof (cases "i < length (headerBlocks r)")
    case True
    then have "[i..<length (headerBlocks r)] = i # [i + 1..<length (headerBlocks r)]"
      by (simp add: upt_conv_Cons)
    with True 1 show ?thesis
      by (subst getBlocksHeaders_loop.simps) simp
  next
    case False
    then show ?thesis
      by (subst getBlocksHeaders_loop.simps) simp
  qed
qed

lemma getBlocksHeaders_not_consumed:
  "\<not> consumes (getBlocksHeaders_consumeMessage ser s e) v msg
     \<Longrightarrow> declines (getBlocksHeaders_consumeMessage ser s e) v msg"
  by (auto simp: consumes_def declines_def getBlocksHeaders_consumeMessage_def
      split: if_splits option.splits)

lemma getBlocksHeaders_consumes_iff:
  "consumes (getBlocksHeaders_consumeMessage ser s e) v msg \<longleftrightarrow>
     (type msg = reject_header_blocks
      \<and> (\<exists>rPckt. deserialize_RejectHeaderBlocks ser (data msg) = Some rPckt
            \<and> RejectHeaderBlocks.startHeight rPckt = s \<and> RejectHeaderBlocks.endHeight rPckt = e))
     \<or> (type msg = respond_header_blocks
      \<and> (\<exists>rPckt. deserialize_RespondHeaderBlocks ser (data msg) = Some rPckt
            \<and> RespondHeaderBlocks.startHeight rPckt = s
            \<and> RespondHeaderBlocks.endHeight rPckt = e))"
  by (auto simp: consumes_def getBlocksHeaders_consumeMessage_def
      split: if_splits option.splits)

lemma getBlocksHeaders_consumed:
  assumes pre: "list_all (\<lambda>m. \<not> consumes (getBlocksHeaders_consumeMessage ser
                  (getBlocksHeadersArgs.startHeight args) (getBlocksHeadersArgs.endHeight args))
                  (False, None) m) pre"
    and msg: "getBlocksHeaders_consumeMessage ser (getBlocksHeadersArgs.startHeight args)
                (getBlocksHeadersArgs.endHeight args) msg (False, None) = Inr (True, vars)"
  shows "getBlocksHeaders ser pu args (pre @ msg # post)
    = ([makeMsg request_header_blocks (RequestHeaderBlocksPckt
          \<lparr>RequestHeaderBlocks.startHeight = getBlocksHeadersArgs.startHeight args,
           RequestHeaderBlocks.endHeight = getBlocksHeadersArgs.endHeight args\<rparr>)],
       if fst vars then Inr None
       else (case snd vars of
               None \<Rightarrow> Inl TypeError
             | Some r \<Rightarrow> Inr (Some (getBlocksHeaders_loop pu r 0 []))))"
proof -
  let ?c = "getBlocksHeaders_consumeMessage ser (getBlocksHeadersArgs.startHeight args)
              (getBlocksHeadersArgs.endHeight args)"
  have "list_all (declines ?c (False, None)) pre"
    using pre by (rule list_all_not_consumed [rotated]) (rule getBlocksHeaders_not_consumed)
  then show ?thesis
    using msg
    by (cases vars) (simp add: getBlocksHeaders_def Let_def request_consumed split: option.splits)
qed

text \<open>
  C5. For a call of \<open>getBlocksHeaders\<close> with heights \<open>s\<close> and \<open>e\<close>: the predicate
  consumes a frame exactly when it is a \<open>reject_header_blocks\<close> or a
  \<open>respond_header_blocks\<close> frame whose \<open>startHeight\<close> is \<open>s\<close> and whose \<open>endHeight\<close>
  is \<open>e\<close>. When the first frame consumed is a reject the operation returns \<open>null\<close>.
  When it is a respond the operation returns one block header per header block of the
  response, the \<open>i\<close>-th being the translation of the \<open>i\<close>-th header block at height
  \<open>s + i\<close>; \<open>heightOf\<close> reads the height of a public block header, which the
  translation sets to the height it is given.
\<close>

theorem getBlocksHeaders_heights:
  assumes s: "s = getBlocksHeadersArgs.startHeight args"
    and e: "e = getBlocksHeadersArgs.endHeight args"
    and contract: "\<And>hb h. heightOf (serializerHeaderBlockToProviderBlockHeader pu hb h) = h"
  shows "(consumes (getBlocksHeaders_consumeMessage ser s e) v msg \<longleftrightarrow>
           (type msg = reject_header_blocks
            \<and> (\<exists>rPckt. deserialize_RejectHeaderBlocks ser (data msg) = Some rPckt
                  \<and> RejectHeaderBlocks.startHeight rPckt = s
                  \<and> RejectHeaderBlocks.endHeight rPckt = e))
           \<or> (type msg = respond_header_blocks
            \<and> (\<exists>rPckt. deserialize_RespondHeaderBlocks ser (data msg) = Some rPckt
                  \<and> RespondHeaderBlocks.startHeight rPckt = s
                  \<and> RespondHeaderBlocks.endHeight rPckt = e)))
    \<and> (list_all (\<lambda>m. \<not> consumes (getBlocksHeaders_consumeMessage ser s e) (False, None) m) pre
        \<and> type msg = reject_header_blocks
        \<and> deserialize_RejectHeaderBlocks ser (data msg) = Some rej
        \<and> RejectHeaderBlocks.startHeight rej = s \<and> RejectHeaderBlocks.endHeight rej = e
          \<longrightarrow> getBlocksHeaders ser pu args (pre @ msg # post)
              = ([makeMsg request_header_blocks (RequestHeaderBlocksPckt
                    \<lparr>RequestHeaderBlocks.startHeight = s, RequestHeaderBlocks.endHeight = e\<rparr>)],
                 Inr None))
    \<and> (list_all (\<lambda>m. \<not> consumes (getBlocksHeaders_consumeMessage ser s e) (False, None) m) pre
        \<and> type msg = respond_header_blocks
        \<and> deserialize_RespondHeaderBlocks ser (data msg) = Some resp
        \<and> RespondHeaderBlocks.startHeight resp = s \<and> RespondHeaderBlocks.endHeight resp = e
          \<longrightarrow> (\<exists>headers.
                getBlocksHeaders ser pu args (pre @ msg # post)
                  = ([makeMsg request_header_blocks (RequestHeaderBlocksPckt
                        \<lparr>RequestHeaderBlocks.startHeight = s, RequestHeaderBlocks.endHeight = e\<rparr>)],
                     Inr (Some headers))
                \<and> length headers = length (headerBlocks resp)
                \<and> (\<forall>i < length (headerBlocks resp).
                      headers ! i = serializerHeaderBlockToProviderBlockHeader pu
                                      (headerBlocks resp ! i) (int s + int i)
                      \<and> heightOf (headers ! i) = int s + int i)))"
proof (intro conjI impI)
  show "consumes (getBlocksHeaders_consumeMessage ser s e) v msg \<longleftrightarrow>
           (type msg = reject_header_blocks
            \<and> (\<exists>rPckt. deserialize_RejectHeaderBlocks ser (data msg) = Some rPckt
                  \<and> RejectHeaderBlocks.startHeight rPckt = s
                  \<and> RejectHeaderBlocks.endHeight rPckt = e))
           \<or> (type msg = respond_header_blocks
            \<and> (\<exists>rPckt. deserialize_RespondHeaderBlocks ser (data msg) = Some rPckt
                  \<and> RespondHeaderBlocks.startHeight rPckt = s
                  \<and> RespondHeaderBlocks.endHeight rPckt = e))"
    by (rule getBlocksHeaders_consumes_iff)
next
  assume a: "list_all (\<lambda>m. \<not> consumes (getBlocksHeaders_consumeMessage ser s e) (False, None) m) pre
        \<and> type msg = reject_header_blocks
        \<and> deserialize_RejectHeaderBlocks ser (data msg) = Some rej
        \<and> RejectHeaderBlocks.startHeight rej = s \<and> RejectHeaderBlocks.endHeight rej = e"
  then have c: "getBlocksHeaders_consumeMessage ser s e msg (False, None) = Inr (True, (True, None))"
    by (simp add: getBlocksHeaders_consumeMessage_def)
  from a have p: "list_all (\<lambda>m. \<not> consumes (getBlocksHeaders_consumeMessage ser s e)
      (False, None) m) pre"
    by simp
  from getBlocksHeaders_consumed [OF p [unfolded s e] c [unfolded s e], where pu = pu and post = post]
  show "getBlocksHeaders ser pu args (pre @ msg # post)
              = ([makeMsg request_header_blocks (RequestHeaderBlocksPckt
                    \<lparr>RequestHeaderBlocks.startHeight = s, RequestHeaderBlocks.endHeight = e\<rparr>)],
                 Inr None)"
    by (simp add: s e)
next
  assume a: "list_all (\<lambda>m. \<not> consumes (getBlocksHeaders_consumeMessage ser s e) (False, None) m) pre
        \<and> type msg = respond_header_blocks
        \<and> deserialize_RespondHeaderBlocks ser (data msg) = Some resp
        \<and> RespondHeaderBlocks.startHeight resp = s \<and> RespondHeaderBlocks.endHeight resp = e"
  let ?headers = "map (\<lambda>j. serializerHeaderBlockToProviderBlockHeader pu (headerBlocks resp ! j)
                              (int s + int j)) [0..<length (headerBlocks resp)]"
  from a have c: "getBlocksHeaders_consumeMessage ser s e msg (False, None)
      = Inr (True, (False, Some resp))"
    by (simp add: getBlocksHeaders_consumeMessage_def)
  from a have p: "list_all (\<lambda>m. \<not> consumes (getBlocksHeaders_consumeMessage ser s e)
      (False, None) m) pre"
    by simp
  from a have "RespondHeaderBlocks.startHeight resp = s"
    by simp
  with getBlocksHeaders_consumed [OF p [unfolded s e] c [unfolded s e], where pu = pu and post = post]
  have "getBlocksHeaders ser pu args (pre @ msg # post)
      = ([makeMsg request_header_blocks (RequestHeaderBlocksPckt
            \<lparr>RequestHeaderBlocks.startHeight = s, RequestHeaderBlocks.endHeight = e\<rparr>)],
         Inr (Some ?headers))"
    by (simp add: s e getBlocksHeaders_loop_map)
  moreover have "length ?headers = length (headerBlocks resp)"
    by simp
  moreover have "\<forall>i < length (headerBlocks resp).
      ?headers ! i = serializerHeaderBlockToProviderBlockHeader pu
                       (headerBlocks resp ! i) (int s + int i)
      \<and> heightOf (?headers ! i) = int s + int i"
    by (simp add: contract)
  ultimately show "\<exists>headers.
                getBlocksHeaders ser pu args (pre @ msg # post)
                  = ([makeMsg request_header_blocks (RequestHeaderBlocksPckt
                        \<lparr>RequestHeaderBlocks.startHeight = s, RequestHeaderBlocks.endHeight = e\<rparr>)],
                     Inr (Some headers))
                \<and> length headers = length (headerBlocks resp)
                \<and> (\<forall>i < length (headerBlocks resp).
                      headers ! i = serializerHeaderBlockToProviderBlockHeader pu
                                      (headerBlocks resp ! i) (int s + int i)
                      \<and> heightOf (headers ! i) = int s + int i)"
    by blast
qed

theorem getBlocksHeaders_heights_witness:
  "(\<exists>headers.
      getBlocksHeaders (packetSerializer :: ((nat, nat) Payload, nat, nat) Serializer)
        plainProviderUtil
        \<lparr>getBlocksHeadersArgs.startHeight = 100, getBlocksHeadersArgs.endHeight = 102\<rparr>
        [\<lparr>type = reject_header_blocks,
          data = RejectHeaderBlocksData
                   \<lparr>RejectHeaderBlocks.startHeight = 100, RejectHeaderBlocks.endHeight = 101\<rparr>\<rparr>,
         \<lparr>type = respond_header_blocks,
          data = RespondHeaderBlocksData
                   \<lparr>RespondHeaderBlocks.startHeight = 100, RespondHeaderBlocks.endHeight = 102,
                    headerBlocks = [7, 8, 9]\<rparr>\<rparr>]
      = ([makeMsg request_header_blocks (RequestHeaderBlocksPckt
            \<lparr>RequestHeaderBlocks.startHeight = 100, RequestHeaderBlocks.endHeight = 102\<rparr>)],
         Inr (Some headers))
      \<and> length headers = 3
      \<and> (\<forall>i < 3. headers ! i = (100 + int i, [7, 8, 9] ! i) \<and> fst (headers ! i) = 100 + int i))
   \<and> getBlocksHeaders (packetSerializer :: ((nat, nat) Payload, nat, nat) Serializer)
        plainProviderUtil
        \<lparr>getBlocksHeadersArgs.startHeight = 100, getBlocksHeadersArgs.endHeight = 102\<rparr>
        [\<lparr>type = reject_header_blocks,
          data = RejectHeaderBlocksData
                   \<lparr>RejectHeaderBlocks.startHeight = 100, RejectHeaderBlocks.endHeight = 102\<rparr>\<rparr>]
      = ([makeMsg request_header_blocks (RequestHeaderBlocksPckt
            \<lparr>RequestHeaderBlocks.startHeight = 100, RequestHeaderBlocks.endHeight = 102\<rparr>)],
         Inr None)"
  using
    getBlocksHeaders_heights
      [where ser = "packetSerializer :: ((nat, nat) Payload, nat, nat) Serializer"
        and pu = plainProviderUtil and heightOf = fst
        and args = "\<lparr>getBlocksHeadersArgs.startHeight = 100, getBlocksHeadersArgs.endHeight = 102\<rparr>"
        and s = 100 and e = 102
        and pre = "[\<lparr>type = reject_header_blocks,
                     data = RejectHeaderBlocksData
                       \<lparr>RejectHeaderBlocks.startHeight = 100, RejectHeaderBlocks.endHeight = 101\<rparr>\<rparr>]"
        and msg = "\<lparr>type = respond_header_blocks,
                    data = RespondHeaderBlocksData
                      \<lparr>RespondHeaderBlocks.startHeight = 100, RespondHeaderBlocks.endHeight = 102,
                       headerBlocks = [7, 8, 9]\<rparr>\<rparr>"
        and resp = "\<lparr>RespondHeaderBlocks.startHeight = 100, RespondHeaderBlocks.endHeight = 102,
                       headerBlocks = [7, 8, 9]\<rparr>"
        and post = "[]"]
    getBlocksHeaders_heights
      [where ser = "packetSerializer :: ((nat, nat) Payload, nat, nat) Serializer"
        and pu = plainProviderUtil and heightOf = fst
        and args = "\<lparr>getBlocksHeadersArgs.startHeight = 100, getBlocksHeadersArgs.endHeight = 102\<rparr>"
        and s = 100 and e = 102
        and pre = "[]"
        and msg = "\<lparr>type = reject_header_blocks,
                    data = RejectHeaderBlocksData
                      \<lparr>RejectHeaderBlocks.startHeight = 100, RejectHeaderBlocks.endHeight = 102\<rparr>\<rparr>"
        and rej = "\<lparr>RejectHeaderBlocks.startHeight = 100, RejectHeaderBlocks.endHeight = 102\<rparr>"
        and post = "[]"]
  by (simp add: packetSerializer_def plainProviderUtil_def consumes_def
      getBlocksHeaders_consumeMessage_def numeral_3_eq_3)

section \<open>getBalance\<close>

text \<open>The loop adds the amounts from index \<open>i\<close> on to the balance.\<close>

lemma getBalance_loop_sum:
  "getBalance_loop xs i b = b + (\<Sum>cs\<leftarrow>drop i xs. int (amount (coin cs)))"
proof (induction xs i b rule: getBalance_loop.induct)
  case (1 xs i b)
  show ?case
  proof (cases "i < length xs")
    case True
    then have "drop i xs = xs ! i # drop (i + 1) xs"
      by (simp add: Cons_nth_drop_Suc)
    with True 1 show ?thesis
      by (subst getBalance_loop.simps) simp
  next
    case False
    then show ?thesis
      by (subst getBalance_loop.simps) simp
  qed
qed

lemma getBalance_not_consumed:
  "\<not> consumes (getBalance_consumeMessage ser puzHash) v msg
     \<Longrightarrow> declines (getBalance_consumeMessage ser puzHash) v msg"
  by (auto simp: consumes_def declines_def getBalance_consumeMessage_def
      split: if_splits option.splits)

text \<open>
  C2. For a call of \<open>getBalance\<close> that asks for the puzzle hash \<open>puzHash\<close>: when the
  first frame consumed is a \<open>respond_to_ph_update\<close> frame whose \<open>puzzleHashes\<close> contain
  \<open>puzHash\<close>, the operation returns the sum, as an unbounded integer, of \<open>coin.amount\<close>
  over exactly the coin states of that frame whose \<open>coin.puzzleHash\<close> is \<open>puzHash\<close> and
  whose \<open>spentHeight\<close> is \<open>null\<close>.
\<close>

theorem getBalance_sum_unspent:
  assumes puzHash: "getBalance_puzHash au args = Some puzHash"
    and pre: "list_all (\<lambda>m. \<not> consumes (getBalance_consumeMessage ser puzHash) [] m) pre"
    and type: "type msg = respond_to_ph_update"
    and data: "deserialize_RespondToPhUpdates ser (data msg) = Some rPckt"
    and mem: "puzHash \<in> set (RespondToPhUpdates.puzzleHashes rPckt)"
  shows "getBalance au ser args (pre @ msg # post)
    = ([makeMsg register_interest_in_puzzle_hash (RegisterForPhUpdatesPckt
          \<lparr>RegisterForPhUpdates.puzzleHashes = [puzHash],
           RegisterForPhUpdates.minHeight =
             (case getBalanceArgs.minHeight args of None \<Rightarrow> 0 | Some h \<Rightarrow> h)\<rparr>)],
       Inr (Some (\<Sum>cs\<leftarrow>filter (\<lambda>cs. Coin.puzzleHash (coin cs) = puzHash \<and> spentHeight cs = None)
                            (RespondToPhUpdates.coinStates rPckt).
                    int (amount (coin cs)))))"
proof -
  let ?c = "getBalance_consumeMessage ser puzHash"
  have "list_all (declines ?c []) pre"
    using pre by (rule list_all_not_consumed [rotated]) (rule getBalance_not_consumed)
  moreover have "?c msg [] = Inr (True, filter (\<lambda>cs. Coin.puzzleHash (coin cs) = puzHash)
      (RespondToPhUpdates.coinStates rPckt))"
    using type data mem by (simp add: getBalance_consumeMessage_def)
  ultimately show ?thesis
    using puzHash
    by (simp add: getBalance_def Let_def request_consumed getBalance_loop_sum)
qed

theorem getBalance_sum_unspent_witness:
  "getBalance hexAddressUtil (packetSerializer :: ((nat, nat) Payload, nat, nat) Serializer)
      \<lparr>address = None, getBalanceArgs.puzzleHash = Some hashA, getBalanceArgs.minHeight = None\<rparr>
      [\<lparr>type = respond_to_ph_update,
        data = RespondToPhUpdatesData
                 \<lparr>RespondToPhUpdates.puzzleHashes = [hashB], RespondToPhUpdates.minHeight = 0,
                  RespondToPhUpdates.coinStates = [coinStateOf hashB 9 None]\<rparr>\<rparr>,
       \<lparr>type = respond_to_ph_update,
        data = RespondToPhUpdatesData
                 \<lparr>RespondToPhUpdates.puzzleHashes = [hashA], RespondToPhUpdates.minHeight = 0,
                  RespondToPhUpdates.coinStates =
                    [coinStateOf hashA 100 None, coinStateOf hashA 250 None,
                     coinStateOf hashB 1000 None, coinStateOf hashA 5 (Some 42)]\<rparr>\<rparr>]
    = ([makeMsg register_interest_in_puzzle_hash (RegisterForPhUpdatesPckt
          \<lparr>RegisterForPhUpdates.puzzleHashes = [hashA], RegisterForPhUpdates.minHeight = 0\<rparr>)],
       Inr (Some 350))"
  using getBalance_sum_unspent
    [where au = hexAddressUtil
      and ser = "packetSerializer :: ((nat, nat) Payload, nat, nat) Serializer"
      and args = "\<lparr>address = None, getBalanceArgs.puzzleHash = Some hashA,
                   getBalanceArgs.minHeight = None\<rparr>"
      and puzHash = hashA
      and pre = "[\<lparr>type = respond_to_ph_update,
        data = RespondToPhUpdatesData
                 \<lparr>RespondToPhUpdates.puzzleHashes = [hashB], RespondToPhUpdates.minHeight = 0,
                  RespondToPhUpdates.coinStates = [coinStateOf hashB 9 None]\<rparr>\<rparr>]"
      and msg = "\<lparr>type = respond_to_ph_update,
        data = RespondToPhUpdatesData
                 \<lparr>RespondToPhUpdates.puzzleHashes = [hashA], RespondToPhUpdates.minHeight = 0,
                  RespondToPhUpdates.coinStates =
                    [coinStateOf hashA 100 None, coinStateOf hashA 250 None,
                     coinStateOf hashB 1000 None, coinStateOf hashA 5 (Some 42)]\<rparr>\<rparr>"
      and rPckt = "\<lparr>RespondToPhUpdates.puzzleHashes = [hashA], RespondToPhUpdates.minHeight = 0,
                  RespondToPhUpdates.coinStates =
                    [coinStateOf hashA 100 None, coinStateOf hashA 250 None,
                     coinStateOf hashB 1000 None, coinStateOf hashA 5 (Some 42)]\<rparr>"
      and post = "[]"]
  by (simp add: hexAddressUtil_def packetSerializer_def consumes_def getBalance_puzHash_def
      getBalance_consumeMessage_def coinStateOf_def)

text \<open>A request sends the frame of its filter, whatever arrives.\<close>

lemma sent_onMessage: "sent (fst (onMessage msg st)) = sent (fst st)"
  by (simp add: onMessage_def split: prod.splits)

lemma sent_receive: "sent (fst (receive msgs st)) = sent (fst st)"
  by (induction msgs arbitrary: st) (simp_all add: sent_onMessage)

lemma fst_request:
  "fst (request f v inbound) = (case messageToSend f of None \<Rightarrow> [] | Some b \<Rightarrow> [b])"
proof -
  have "fst (request f v inbound)
      = sent (fst (receive inbound (registerFilter f newMessageManager, v)))"
    by (simp add: request_def split: prod.splits)
  then show ?thesis
    by (simp add: sent_receive registerFilter_def newMessageManager_def)
qed

lemma getBalance_invalid_address:
  "address args = Some a \<Longrightarrow> prefix ADDRESS_PREFIX a \<Longrightarrow> length (addressToPuzzleHash au a) = 0
    \<Longrightarrow> getBalance au ser args inbound = ([], Inr None)"
  by (simp add: getBalance_def getBalance_puzHash_def)

lemma getBalance_no_hash:
  "address args = None \<or> \<not> prefix ADDRESS_PREFIX (the (address args))
    \<Longrightarrow> getBalanceArgs.puzzleHash args = None
    \<Longrightarrow> getBalance au ser args inbound = ([], Inr None)"
  by (auto simp: getBalance_def getBalance_puzHash_def)

lemma getBalance_puzzleHash_not_checked:
  "address args = None \<Longrightarrow> getBalanceArgs.puzzleHash args = Some ph
    \<Longrightarrow> fst (getBalance au ser args inbound)
      = [makeMsg register_interest_in_puzzle_hash (RegisterForPhUpdatesPckt
          \<lparr>RegisterForPhUpdates.puzzleHashes = [validateHashString au ph],
           RegisterForPhUpdates.minHeight =
             (case getBalanceArgs.minHeight args of None \<Rightarrow> 0 | Some h \<Rightarrow> h)\<rparr>)]"
proof -
  let ?f = "\<lparr>messageToSend = Some (makeMsg register_interest_in_puzzle_hash
               (RegisterForPhUpdatesPckt
                  \<lparr>RegisterForPhUpdates.puzzleHashes = [validateHashString au ph],
                   RegisterForPhUpdates.minHeight =
                     (case getBalanceArgs.minHeight args of None \<Rightarrow> 0 | Some h \<Rightarrow> h)\<rparr>)),
             consumeMessage = getBalance_consumeMessage ser (validateHashString au ph),
             deleteAfterFirstMessageConsumed = True,
             expectedMaxRensponseWait = 15000\<rparr>"
  assume "address args = None" and "getBalanceArgs.puzzleHash args = Some ph"
  then have "fst (getBalance au ser args inbound) = fst (request ?f [] inbound)"
    by (simp add: getBalance_def getBalance_puzHash_def Let_def split: prod.splits sum.splits)
  then show ?thesis
    by (simp add: fst_request)
qed

text \<open>
  C1. \<open>getBalance\<close> returns \<open>null\<close> and sends nothing when the address starts with
  the prefix and fails to decode (\<open>getBalance_invalid_address\<close>), and when there is
  neither an address with the prefix nor a puzzle hash (\<open>getBalance_no_hash\<close>). A puzzle
  hash that fails validation is not tested: the branch that validates it lacks the
  \<^verbatim>\<open>length === 0\<close> test of the address branch, so the empty string goes into the
  request and the frame is sent (\<open>getBalance_puzzleHash_not_checked\<close>). Here the puzzle
  hash is \<open>zz\<close> and no frame arrives: the operation has sent
  \<open>register_interest_in_puzzle_hash\<close> for the empty hash and times out.
\<close>

theorem getBalance_invalid_puzzleHash_sends:
  "getBalance hexAddressUtil (packetSerializer :: ((nat, nat) Payload, nat, nat) Serializer)
      \<lparr>address = None, getBalanceArgs.puzzleHash = Some ''zz'', getBalanceArgs.minHeight = None\<rparr> []
    = ([makeMsg register_interest_in_puzzle_hash (RegisterForPhUpdatesPckt
          \<lparr>RegisterForPhUpdates.puzzleHashes = [[]], RegisterForPhUpdates.minHeight = 0\<rparr>)],
       Inl Timeout)"
  by (simp add: getBalance_def getBalance_puzHash_def Let_def hexAddressUtil_def request_timeout)

section \<open>getCoinRemovals\<close>

text \<open>
  The loop over the coin ids stops with \<open>null\<close> at the first one that fails validation,
  and collects the validated ids otherwise.
\<close>

lemma getCoinRemovals_parse_eq:
  "getCoinRemovals_parse au cIds i acc
     = (if \<exists>x\<in>set (drop i cIds). length (validateHashString au x) = 0 then None
        else Some (acc @ map (validateHashString au) (drop i cIds)))"
proof (induction au cIds i acc rule: getCoinRemovals_parse.induct)
  case (1 au cIds i acc)
  show ?case
  proof (cases "i < length cIds")
    case True
    then have d: "drop i cIds = cIds ! i # drop (i + 1) cIds"
      by (simp add: Cons_nth_drop_Suc)
    show ?thesis
    proof (cases "length (validateHashString au (cIds ! i)) = 0")
      case True
      with \<open>i < length cIds\<close> d show ?thesis
        by (subst getCoinRemovals_parse.simps) simp
    next
      case False
      with \<open>i < length cIds\<close> d 1 show ?thesis
        by (subst getCoinRemovals_parse.simps) (simp add: Let_def)
    qed
  next
    case False
    then show ?thesis
      by (subst getCoinRemovals_parse.simps) simp
  qed
qed

lemma request_sent:
  obtains r where "request f v inbound = (case messageToSend f of None \<Rightarrow> [] | Some b \<Rightarrow> [b], r)"
  using fst_request [of f v inbound] by (cases "request f v inbound") simp

text \<open>
  C4. For every call of \<open>getCoinRemovals\<close>: when the header hash fails validation, or
  a list of coin ids is given and one of its elements fails validation, the operation
  returns \<open>null\<close> and sends no frame, whatever arrives; otherwise it sends one
  \<open>request_removals\<close> frame, with the validated header hash and coin ids.
\<close>

theorem getCoinRemovals_validation:
  "(length (validateHashString au (getCoinRemovalsArgs.headerHash args)) = 0
     \<or> (\<exists>cIds. getCoinRemovalsArgs.coinIds args = Some cIds
           \<and> (\<exists>x\<in>set cIds. length (validateHashString au x) = 0))
     \<longrightarrow> getCoinRemovals au ser pu args inbound = ([], Inr None))
   \<and> (\<not> (length (validateHashString au (getCoinRemovalsArgs.headerHash args)) = 0
          \<or> (\<exists>cIds. getCoinRemovalsArgs.coinIds args = Some cIds
                \<and> (\<exists>x\<in>set cIds. length (validateHashString au x) = 0)))
     \<longrightarrow> fst (getCoinRemovals au ser pu args inbound)
         = [makeMsg request_removals (RequestRemovalsPckt
              \<lparr>RequestRemovals.height = getCoinRemovalsArgs.height args,
               RequestRemovals.headerHash =
                 validateHashString au (getCoinRemovalsArgs.headerHash args),
               coinNames = map_option (map (validateHashString au))
                             (getCoinRemovalsArgs.coinIds args)\<rparr>)])"
proof (intro conjI impI)
  assume "length (validateHashString au (getCoinRemovalsArgs.headerHash args)) = 0
     \<or> (\<exists>cIds. getCoinRemovalsArgs.coinIds args = Some cIds
           \<and> (\<exists>x\<in>set cIds. length (validateHashString au x) = 0))"
  then show "getCoinRemovals au ser pu args inbound = ([], Inr None)"
    by (auto simp: getCoinRemovals_def Let_def getCoinRemovals_parse_eq)
next
  assume ok: "\<not> (length (validateHashString au (getCoinRemovalsArgs.headerHash args)) = 0
          \<or> (\<exists>cIds. getCoinRemovalsArgs.coinIds args = Some cIds
                \<and> (\<exists>x\<in>set cIds. length (validateHashString au x) = 0)))"
  show "fst (getCoinRemovals au ser pu args inbound)
         = [makeMsg request_removals (RequestRemovalsPckt
              \<lparr>RequestRemovals.height = getCoinRemovalsArgs.height args,
               RequestRemovals.headerHash =
                 validateHashString au (getCoinRemovalsArgs.headerHash args),
               coinNames = map_option (map (validateHashString au))
                             (getCoinRemovalsArgs.coinIds args)\<rparr>)]"
  proof -
    let ?hh = "validateHashString au (getCoinRemovalsArgs.headerHash args)"
    let ?pckt = "\<lparr>RequestRemovals.height = getCoinRemovalsArgs.height args,
                 RequestRemovals.headerHash = ?hh,
                 coinNames = map_option (map (validateHashString au))
                               (getCoinRemovalsArgs.coinIds args)\<rparr>"
    let ?f = "\<lparr>messageToSend = Some (makeMsg request_removals (RequestRemovalsPckt ?pckt)),
               consumeMessage =
                 getCoinRemovals_consumeMessage ser (getCoinRemovalsArgs.height args) ?hh,
               deleteAfterFirstMessageConsumed = True,
               expectedMaxRensponseWait = 15000\<rparr>"
    obtain r where req: "request ?f (False, None) inbound
        = ([makeMsg request_removals (RequestRemovalsPckt ?pckt)], r)"
      by (rule request_sent [of ?f "(False, None)" inbound]) simp
    show ?thesis
    proof (cases "getCoinRemovalsArgs.coinIds args")
      case None
      with ok req show ?thesis
        by (simp add: getCoinRemovals_def Let_def split: sum.splits option.splits)
    next
      case (Some cIds)
      with ok have "getCoinRemovals_parse au cIds 0 [] = Some (map (validateHashString au) cIds)"
        by (simp add: getCoinRemovals_parse_eq)
      with ok Some req show ?thesis
        by (simp add: getCoinRemovals_def Let_def split: sum.splits option.splits)
    qed
  qed
qed

theorem getCoinRemovals_validation_witness:
  "getCoinRemovals hexAddressUtil (packetSerializer :: ((nat, nat) Payload, nat, nat) Serializer)
      plainProviderUtil
      \<lparr>getCoinRemovalsArgs.height = 5, getCoinRemovalsArgs.headerHash = hashA,
       getCoinRemovalsArgs.coinIds = Some [hashB, ''zz'']\<rparr> []
    = ([], Inr None)
   \<and> getCoinRemovals hexAddressUtil (packetSerializer :: ((nat, nat) Payload, nat, nat) Serializer)
      plainProviderUtil
      \<lparr>getCoinRemovalsArgs.height = 5, getCoinRemovalsArgs.headerHash = ''zz'',
       getCoinRemovalsArgs.coinIds = None\<rparr> []
    = ([], Inr None)
   \<and> fst (getCoinRemovals hexAddressUtil
          (packetSerializer :: ((nat, nat) Payload, nat, nat) Serializer) plainProviderUtil
          \<lparr>getCoinRemovalsArgs.height = 5, getCoinRemovalsArgs.headerHash = hashA,
           getCoinRemovalsArgs.coinIds = Some [hashB, hashA]\<rparr> [])
    = [makeMsg request_removals (RequestRemovalsPckt
         \<lparr>RequestRemovals.height = 5, RequestRemovals.headerHash = hashA,
          coinNames = Some [hashB, hashA]\<rparr>)]"
  using
    getCoinRemovals_validation
      [where au = hexAddressUtil
        and ser = "packetSerializer :: ((nat, nat) Payload, nat, nat) Serializer"
        and pu = plainProviderUtil and inbound = "[]"
        and args = "\<lparr>getCoinRemovalsArgs.height = 5, getCoinRemovalsArgs.headerHash = hashA,
                      getCoinRemovalsArgs.coinIds = Some [hashB, ''zz'']\<rparr>"]
    getCoinRemovals_validation
      [where au = hexAddressUtil
        and ser = "packetSerializer :: ((nat, nat) Payload, nat, nat) Serializer"
        and pu = plainProviderUtil and inbound = "[]"
        and args = "\<lparr>getCoinRemovalsArgs.height = 5, getCoinRemovalsArgs.headerHash = ''zz'',
                      getCoinRemovalsArgs.coinIds = None\<rparr>"]
    getCoinRemovals_validation
      [where au = hexAddressUtil
        and ser = "packetSerializer :: ((nat, nat) Payload, nat, nat) Serializer"
        and pu = plainProviderUtil and inbound = "[]"
        and args = "\<lparr>getCoinRemovalsArgs.height = 5, getCoinRemovalsArgs.headerHash = hashA,
                      getCoinRemovalsArgs.coinIds = Some [hashB, hashA]\<rparr>"]
  by (simp add: hexAddressUtil_def)

section \<open>connect and getBlockNumber\<close>

lemma connect_keeps_blockNumber: "blockNumber (connect ser this) = blockNumber this"
  by (simp add: connect_def)

lemma connect_not_consumed:
  "\<not> consumes (connect_consumeMessage ser) v msg \<Longrightarrow> declines (connect_consumeMessage ser) v' msg"
  by (auto simp: consumes_def declines_def connect_consumeMessage_def
      split: if_splits option.splits)

lemma connect_consumes_iff:
  "consumes (connect_consumeMessage ser) v msg \<longleftrightarrow>
     type msg = new_peak_wallet \<and> deserialize_NewPeakWallet ser (data msg) \<noteq> None"
  by (auto simp: consumes_def connect_consumeMessage_def split: if_splits option.splits)

lemma onMessage_persistent:
  assumes "filters mm = [f]" and "\<not> deleteAfterFirstMessageConsumed f"
  shows "\<exists>v'. onMessage msg (mm, v) = (mm, v')"
proof (cases "consumeMessage f msg v")
  case (Inl e)
  with assms show ?thesis
    by (cases mm) (simp add: onMessage_def)
next
  case (Inr r)
  with assms show ?thesis
    by (cases mm; cases r) (simp add: onMessage_def)
qed

lemma receive_persistent:
  assumes "filters mm = [f]" and "\<not> deleteAfterFirstMessageConsumed f"
  shows "\<exists>v'. receive msgs (mm, v) = (mm, v')"
proof (induction msgs arbitrary: v)
  case Nil
  show ?case by simp
next
  case (Cons msg msgs)
  from onMessage_persistent [OF assms] obtain v1 where "onMessage msg (mm, v) = (mm, v1)"
    by blast
  with Cons [of v1] show ?case by simp
qed

text \<open>
  A frame that the manager does not consume leaves the registry as it is, and for a
  single filter the manager consumes what the predicate consumes.
\<close>

lemma consumedByFilters_single:
  "consumedByFilters msg [f] v = consumes (consumeMessage f) v msg"
  by (simp add: consumes_def split: sum.splits prod.splits)

lemma offer_not_consumed: "\<not> consumedByFilters msg fs v \<Longrightarrow> fst (offer msg fs v) = fs"
proof (induction fs arbitrary: v)
  case Nil
  show ?case by simp
next
  case (Cons f fs)
  show ?case
  proof (cases "consumeMessage f msg v")
    case (Inl e)
    then show ?thesis by simp
  next
    case (Inr r)
    obtain c v' where r: "r = (c, v')" by (cases r)
    with Inr Cons.prems have c: "\<not> c" and "\<not> consumedByFilters msg fs v'"
      by simp_all
    from Cons.IH [OF this(2)] Inr r c show ?thesis
      by (cases "offer msg fs v'") simp
  qed
qed

lemma offer_watchers:
  assumes f: "consumeMessage f = connect_consumeMessage ser" "\<not> deleteAfterFirstMessageConsumed f"
  shows "offer msg (replicate n f) v
     = (replicate n f,
        if 0 < n \<and> type msg = new_peak_wallet
        then (case deserialize_NewPeakWallet ser (data msg) of
                None \<Rightarrow> v
              | Some pckt \<Rightarrow> Some (NewPeakWallet.height pckt))
        else v)"
proof (induction n)
  case 0
  show ?case by simp
next
  case (Suc n)
  then show ?case
    by (cases n) (auto simp: f connect_consumeMessage_def split: option.splits)
qed

lemma consumedByFilters_watchers:
  assumes f: "consumeMessage f = connect_consumeMessage ser"
  shows "consumedByFilters msg (replicate n f) v
     \<longleftrightarrow> 0 < n \<and> type msg = new_peak_wallet \<and> deserialize_NewPeakWallet ser (data msg) \<noteq> None"
  by (induction n) (auto simp: f connect_consumeMessage_def split: option.splits)

text \<open>
  The registry of the provider's own manager holds peak watchers only, one for each
  \<open>connect\<close> since the last \<open>close\<close>. They are persistent, and the first of them
  consumes every \<open>new_peak_wallet\<close> frame that decodes.
\<close>

lemma occur_watchers:
  fixes ser :: "('d, 'hb, 'p) Serializer"
  defines "W \<equiv> \<lparr>messageToSend = None, consumeMessage = connect_consumeMessage ser,
                  deleteAfterFirstMessageConsumed = False,
                  expectedMaxRensponseWait = 120000\<rparr>"
  assumes inv: "filters (messageManager this) = replicate n W"
  shows "occur ser Connect this
           = this\<lparr>messageManager := (messageManager this)\<lparr>filters := replicate (Suc n) W\<rparr>\<rparr>"
    and "occur ser Close this
           = this\<lparr>messageManager := (messageManager this)\<lparr>filters := replicate 0 W\<rparr>\<rparr>"
    and "occur ser (Receive msg) this
           = this\<lparr>blockNumber :=
                  (if 0 < n \<and> type msg = new_peak_wallet
                   then (case deserialize_NewPeakWallet ser (data msg) of
                           None \<Rightarrow> blockNumber this
                         | Some pckt \<Rightarrow> Some (NewPeakWallet.height pckt))
                   else blockNumber this)\<rparr>"
proof -
  have W: "consumeMessage W = connect_consumeMessage ser" "\<not> deleteAfterFirstMessageConsumed W"
    "messageToSend W = None"
    by (simp_all add: W_def)
  show "occur ser Connect this
           = this\<lparr>messageManager := (messageManager this)\<lparr>filters := replicate (Suc n) W\<rparr>\<rparr>"
    using inv by (simp add: connect_def registerFilter_def W_def replicate_append_same)
  show "occur ser Close this
           = this\<lparr>messageManager := (messageManager this)\<lparr>filters := replicate 0 W\<rparr>\<rparr>"
    by (simp add: close_def closeManager_def)
  show "occur ser (Receive msg) this
           = this\<lparr>blockNumber :=
                  (if 0 < n \<and> type msg = new_peak_wallet
                   then (case deserialize_NewPeakWallet ser (data msg) of
                           None \<Rightarrow> blockNumber this
                         | Some pckt \<Rightarrow> Some (NewPeakWallet.height pckt))
                   else blockNumber this)\<rparr>"
    using inv offer_watchers [OF W(1,2), of msg n "blockNumber this"]
    by (cases this; cases "messageManager this") (simp add: deliver_def onMessage_def)
qed

lemma history_watchers:
  fixes ser :: "('d, 'hb, 'p) Serializer"
  defines "W \<equiv> \<lparr>messageToSend = None, consumeMessage = connect_consumeMessage ser,
                  deleteAfterFirstMessageConsumed = False,
                  expectedMaxRensponseWait = 120000\<rparr>"
  shows "filters (messageManager this) = replicate n W
    \<Longrightarrow> (\<exists>k. filters (messageManager (history ser es this)) = replicate k W)
      \<and> sent (messageManager (history ser es this)) = sent (messageManager this)
      \<and> blockNumber (history ser es this)
          = (case heightsConsumed ser es this of
               [] \<Rightarrow> blockNumber this
             | h # hs \<Rightarrow> Some (last (h # hs)))"
proof (induction es arbitrary: this n)
  case Nil
  then show ?case by auto
next
  case (Cons e es)
  note inv = Cons.prems [unfolded W_def]
  have W: "consumeMessage W = connect_consumeMessage ser"
    by (simp add: W_def)
  show ?case
  proof (cases e)
    case Connect
    let ?next = "occur ser Connect this"
    have step: "?next = this\<lparr>messageManager := (messageManager this)\<lparr>filters := replicate (Suc n) W\<rparr>\<rparr>"
      unfolding W_def by (rule occur_watchers(1) [OF inv])
    then have "filters (messageManager ?next) = replicate (Suc n) W"
      by simp
    from Cons.IH [OF this] step Connect show ?thesis
      by (simp split: list.splits)
  next
    case Close
    let ?next = "occur ser Close this"
    have step: "?next = this\<lparr>messageManager := (messageManager this)\<lparr>filters := replicate 0 W\<rparr>\<rparr>"
      unfolding W_def by (rule occur_watchers(2) [OF inv])
    then have "filters (messageManager ?next) = replicate 0 W"
      by simp
    from Cons.IH [OF this] step Close show ?thesis
      by (simp split: list.splits)
  next
    case (Receive msg)
    let ?next = "occur ser (Receive msg) this"
    have step: "?next = this\<lparr>blockNumber :=
                  (if 0 < n \<and> type msg = new_peak_wallet
                   then (case deserialize_NewPeakWallet ser (data msg) of
                           None \<Rightarrow> blockNumber this
                         | Some pckt \<Rightarrow> Some (NewPeakWallet.height pckt))
                   else blockNumber this)\<rparr>"
      by (rule occur_watchers(3) [OF inv])
    then have "filters (messageManager ?next) = replicate n W"
      using Cons.prems by simp
    from Cons.IH [OF this] step Receive Cons.prems
      consumedByFilters_watchers [OF W, of msg n "blockNumber this"]
    show ?thesis
      by (auto split: option.splits list.splits)
  qed
qed

lemma watcher_consumes_iff:
  "consumedByFilters msg
      (filters (messageManager (history ser es (newLeafletProvider host apiKey port netId)))) v
    \<longleftrightarrow> filters (messageManager (history ser es (newLeafletProvider host apiKey port netId))) \<noteq> []
        \<and> type msg = new_peak_wallet
        \<and> deserialize_NewPeakWallet ser (data msg) \<noteq> None"
proof -
  let ?new = "newLeafletProvider host apiKey port netId"
  let ?W = "\<lparr>messageToSend = None, consumeMessage = connect_consumeMessage ser,
              deleteAfterFirstMessageConsumed = False,
              expectedMaxRensponseWait = 120000\<rparr>"
  have "filters (messageManager ?new) = replicate 0 ?W"
    by (simp add: newLeafletProvider_def newMessageManager_def)
  from history_watchers [OF this, of es]
  obtain k where k: "filters (messageManager (history ser es ?new)) = replicate k ?W"
    by blast
  have "consumeMessage ?W = connect_consumeMessage ser"
    by simp
  from consumedByFilters_watchers [OF this, of msg k v] k show ?thesis
    by simp
qed

text \<open>
  C7, amended. \<open>getBlockNumber\<close> leaves the provider as it is, so it sends no frame,
  and returns the cached block number. After any life \<open>es\<close> of a provider since its
  construction (calls of \<open>connect\<close> and \<open>close\<close> and arriving frames in any order)
  nothing has been sent, and the answer is \<open>null\<close> when no \<open>new_peak_wallet\<close> frame
  has been consumed since the provider was constructed, and the height carried by the
  most recently consumed \<open>new_peak_wallet\<close> frame otherwise.
\<close>

theorem getBlockNumber_latest_peak:
  "fst (getBlockNumber this) = this
   \<and> sent (messageManager (history ser es (newLeafletProvider host apiKey port netId))) = []
   \<and> snd (getBlockNumber (history ser es (newLeafletProvider host apiKey port netId)))
       = (case heightsConsumed ser es (newLeafletProvider host apiKey port netId) of
            [] \<Rightarrow> None
          | h # hs \<Rightarrow> Some (last (h # hs)))"
proof -
  let ?new = "newLeafletProvider host apiKey port netId"
  let ?W = "\<lparr>messageToSend = None, consumeMessage = connect_consumeMessage ser,
              deleteAfterFirstMessageConsumed = False,
              expectedMaxRensponseWait = 120000\<rparr>"
  have "filters (messageManager ?new) = replicate 0 ?W"
    by (simp add: newLeafletProvider_def newMessageManager_def)
  moreover have "blockNumber ?new = None" and "sent (messageManager ?new) = []"
    by (simp_all add: newLeafletProvider_def newMessageManager_def)
  ultimately show ?thesis
    using history_watchers [of ?new 0 ser es]
    by (simp add: getBlockNumber_def split: list.splits)
qed

theorem getBlockNumber_latest_peak_witness:
  "snd (getBlockNumber
         (history (packetSerializer :: ((nat, nat) Payload, nat, nat) Serializer)
           [Receive \<lparr>type = new_peak_wallet, data = NewPeakWalletData \<lparr>NewPeakWallet.height = 3\<rparr>\<rparr>]
           (newLeafletProvider ''node'' ''key'' None None)))
     = None
   \<and> snd (getBlockNumber
         (history (packetSerializer :: ((nat, nat) Payload, nat, nat) Serializer)
           [Connect,
            Receive \<lparr>type = new_peak_wallet, data = NewPeakWalletData \<lparr>NewPeakWallet.height = 5\<rparr>\<rparr>,
            Receive \<lparr>type = respond_children,
                     data = RespondChildrenData \<lparr>RespondChildren.coinStates = []\<rparr>\<rparr>,
            Receive \<lparr>type = new_peak_wallet, data = NewPeakWalletData \<lparr>NewPeakWallet.height = 9\<rparr>\<rparr>,
            Receive \<lparr>type = new_peak_wallet,
                     data = RespondChildrenData \<lparr>RespondChildren.coinStates = []\<rparr>\<rparr>,
            Close,
            Receive \<lparr>type = new_peak_wallet, data = NewPeakWalletData \<lparr>NewPeakWallet.height = 11\<rparr>\<rparr>,
            Connect]
           (newLeafletProvider ''node'' ''key'' None None)))
     = Some 9"
  using
    getBlockNumber_latest_peak
      [where ser = "packetSerializer :: ((nat, nat) Payload, nat, nat) Serializer"
        and this = "newLeafletProvider ''node'' ''key'' None None :: nat LeafletProvider"
        and host = "''node''" and apiKey = "''key''" and port = None and netId = None
        and es = "[Receive \<lparr>type = new_peak_wallet,
                            data = NewPeakWalletData \<lparr>NewPeakWallet.height = 3\<rparr>\<rparr>]"]
    getBlockNumber_latest_peak
      [where ser = "packetSerializer :: ((nat, nat) Payload, nat, nat) Serializer"
        and this = "newLeafletProvider ''node'' ''key'' None None :: nat LeafletProvider"
        and host = "''node''" and apiKey = "''key''" and port = None and netId = None
        and es = "[Connect,
            Receive \<lparr>type = new_peak_wallet, data = NewPeakWalletData \<lparr>NewPeakWallet.height = 5\<rparr>\<rparr>,
            Receive \<lparr>type = respond_children,
                     data = RespondChildrenData \<lparr>RespondChildren.coinStates = []\<rparr>\<rparr>,
            Receive \<lparr>type = new_peak_wallet, data = NewPeakWalletData \<lparr>NewPeakWallet.height = 9\<rparr>\<rparr>,
            Receive \<lparr>type = new_peak_wallet,
                     data = RespondChildrenData \<lparr>RespondChildren.coinStates = []\<rparr>\<rparr>,
            Close,
            Receive \<lparr>type = new_peak_wallet, data = NewPeakWalletData \<lparr>NewPeakWallet.height = 11\<rparr>\<rparr>,
            Connect]"]
  by (simp add: connect_def close_def closeManager_def deliver_def
      onMessage_def registerFilter_def newLeafletProvider_def newMessageManager_def
      connect_consumeMessage_def packetSerializer_def)

text \<open>
  C7, as stated, fails. A provider is constructed and connected, a peak of height 5
  arrives, the provider is closed and connected again: no \<open>new_peak_wallet\<close> frame has
  been consumed since that \<open>connect\<close>, and \<open>getBlockNumber\<close> returns 5, not \<open>null\<close>.
  Neither \<open>close\<close> nor \<open>connect\<close> assigns \<open>blockNumber\<close>.
\<close>

theorem getBlockNumber_stale_after_reconnect:
  "snd (getBlockNumber
         (connect (packetSerializer :: ((nat, nat) Payload, nat, nat) Serializer)
           (close
             (deliver
               [\<lparr>type = new_peak_wallet, data = NewPeakWalletData \<lparr>NewPeakWallet.height = 5\<rparr>\<rparr>]
               (connect (packetSerializer :: ((nat, nat) Payload, nat, nat) Serializer)
                 (newLeafletProvider ''node'' ''key'' None None))))))
     = Some 5
   \<and> heightsConsumed (packetSerializer :: ((nat, nat) Payload, nat, nat) Serializer)
       [Connect]
       (close
         (deliver
           [\<lparr>type = new_peak_wallet, data = NewPeakWalletData \<lparr>NewPeakWallet.height = 5\<rparr>\<rparr>]
           (connect (packetSerializer :: ((nat, nat) Payload, nat, nat) Serializer)
             (newLeafletProvider ''node'' ''key'' None None))))
     = []"
  by (simp add: getBlockNumber_def connect_def close_def closeManager_def deliver_def
      onMessage_def registerFilter_def newLeafletProvider_def newMessageManager_def
      connect_consumeMessage_def packetSerializer_def)

section \<open>Subscriptions\<close>

text \<open>A valid puzzle hash does send a frame and register a filter.\<close>

lemma subscribeToPuzzleHashUpdates_valid:
  "length (validateHashString au (subscribeToPuzzleHashUpdatesArgs.puzzleHash phArgs)) \<noteq> 0
    \<Longrightarrow> length (sent (subscribeToPuzzleHashUpdates au ser phArgs mm)) = length (sent mm) + 1
      \<and> length (filters (subscribeToPuzzleHashUpdates au ser phArgs mm)) = length (filters mm) + 1"
  by (simp add: subscribeToPuzzleHashUpdates_def Let_def registerFilter_def)

text \<open>
  C8. When the puzzle hash given to \<open>subscribeToPuzzleHashUpdates\<close>, or the coin id
  given to \<open>subscribeToCoinUpdates\<close>, fails validation, the call returns with the
  manager as it was: no frame is sent and no filter is registered. The callback is then
  never invoked: whatever frames arrive, they leave the manager and the variables that
  the callback acts on (\<open>v\<close>) exactly as they would without the call, and untouched when
  no other filter is registered.
\<close>

theorem subscribe_invalid_hash_no_effect:
  "(length (validateHashString au (subscribeToPuzzleHashUpdatesArgs.puzzleHash phArgs)) = 0
      \<longrightarrow> subscribeToPuzzleHashUpdates au ser phArgs mm = mm
          \<and> sent (subscribeToPuzzleHashUpdates au ser phArgs mm) = sent mm
          \<and> filters (subscribeToPuzzleHashUpdates au ser phArgs mm) = filters mm
          \<and> receive inbound (subscribeToPuzzleHashUpdates au ser phArgs mm, v)
              = receive inbound (mm, v)
          \<and> receive inbound (subscribeToPuzzleHashUpdates au ser phArgs newMessageManager, v)
              = (newMessageManager, v))
   \<and> (length (validateHashString au (subscribeToCoinUpdatesArgs.coinId coinArgs)) = 0
      \<longrightarrow> subscribeToCoinUpdates au ser getId coinArgs mm = mm
          \<and> sent (subscribeToCoinUpdates au ser getId coinArgs mm) = sent mm
          \<and> filters (subscribeToCoinUpdates au ser getId coinArgs mm) = filters mm
          \<and> receive inbound (subscribeToCoinUpdates au ser getId coinArgs mm, v)
              = receive inbound (mm, v)
          \<and> receive inbound (subscribeToCoinUpdates au ser getId coinArgs newMessageManager, v)
              = (newMessageManager, v))"
  by (simp add: subscribeToPuzzleHashUpdates_def subscribeToCoinUpdates_def
      receive_no_filters newMessageManager_def)

theorem subscribe_invalid_hash_no_effect_witness:
  "receive
     [\<lparr>type = respond_to_ph_update,
       data = RespondToPhUpdatesData
                \<lparr>RespondToPhUpdates.puzzleHashes = [[], ''zz''], RespondToPhUpdates.minHeight = 0,
                 RespondToPhUpdates.coinStates = [coinStateOf [] 1 None, coinStateOf ''zz'' 2 None]\<rparr>\<rparr>]
     (subscribeToPuzzleHashUpdates hexAddressUtil
        (packetSerializer :: ((nat, nat) Payload, nat, nat) Serializer)
        \<lparr>subscribeToPuzzleHashUpdatesArgs.puzzleHash = ''zz'',
         subscribeToPuzzleHashUpdatesArgs.callback = (\<lambda>coins calls. calls @ [coins]),
         subscribeToPuzzleHashUpdatesArgs.minHeight = None\<rparr>
        newMessageManager, [])
    = (newMessageManager, [])
   \<and> receive
     [\<lparr>type = respond_to_coin_update,
       data = RespondToCoinUpdatesData
                \<lparr>RespondToCoinUpdates.coinIds = [[], ''zz''], RespondToCoinUpdates.minHeight = 0,
                 RespondToCoinUpdates.coinStates = [coinStateOf [] 1 None, coinStateOf ''zz'' 2 None]\<rparr>\<rparr>]
     (subscribeToCoinUpdates hexAddressUtil
        (packetSerializer :: ((nat, nat) Payload, nat, nat) Serializer)
        (\<lambda>c. Coin.puzzleHash c)
        \<lparr>subscribeToCoinUpdatesArgs.coinId = ''zz'',
         subscribeToCoinUpdatesArgs.callback = (\<lambda>coins calls. calls @ [coins]),
         subscribeToCoinUpdatesArgs.minHeight = None\<rparr>
        newMessageManager, [])
    = (newMessageManager, [])"
  using subscribe_invalid_hash_no_effect
    [where au = hexAddressUtil
      and ser = "packetSerializer :: ((nat, nat) Payload, nat, nat) Serializer"
      and phArgs = "\<lparr>subscribeToPuzzleHashUpdatesArgs.puzzleHash = ''zz'',
         subscribeToPuzzleHashUpdatesArgs.callback = (\<lambda>coins calls. calls @ [coins]),
         subscribeToPuzzleHashUpdatesArgs.minHeight = None\<rparr>"
      and mm = newMessageManager and v = "[]"
      and inbound = "[\<lparr>type = respond_to_ph_update,
       data = RespondToPhUpdatesData
                \<lparr>RespondToPhUpdates.puzzleHashes = [[], ''zz''], RespondToPhUpdates.minHeight = 0,
                 RespondToPhUpdates.coinStates = [coinStateOf [] 1 None, coinStateOf ''zz'' 2 None]\<rparr>\<rparr>]"
      and coinArgs = "\<lparr>subscribeToCoinUpdatesArgs.coinId = ''zz'',
         subscribeToCoinUpdatesArgs.callback = (\<lambda>coins calls. calls @ [coins]),
         subscribeToCoinUpdatesArgs.minHeight = None\<rparr>"
      and getId = "\<lambda>c. Coin.puzzleHash c"]
    subscribe_invalid_hash_no_effect
    [where au = hexAddressUtil
      and ser = "packetSerializer :: ((nat, nat) Payload, nat, nat) Serializer"
      and phArgs = "\<lparr>subscribeToPuzzleHashUpdatesArgs.puzzleHash = ''zz'',
         subscribeToPuzzleHashUpdatesArgs.callback = (\<lambda>coins calls. calls @ [coins]),
         subscribeToPuzzleHashUpdatesArgs.minHeight = None\<rparr>"
      and mm = newMessageManager and v = "[]"
      and inbound = "[\<lparr>type = respond_to_coin_update,
       data = RespondToCoinUpdatesData
                \<lparr>RespondToCoinUpdates.coinIds = [[], ''zz''], RespondToCoinUpdates.minHeight = 0,
                 RespondToCoinUpdates.coinStates = [coinStateOf [] 1 None, coinStateOf ''zz'' 2 None]\<rparr>\<rparr>]"
      and coinArgs = "\<lparr>subscribeToCoinUpdatesArgs.coinId = ''zz'',
         subscribeToCoinUpdatesArgs.callback = (\<lambda>coins calls. calls @ [coins]),
         subscribeToCoinUpdatesArgs.minHeight = None\<rparr>"
      and getId = "\<lambda>c. Coin.puzzleHash c"]
  by (simp add: hexAddressUtil_def onMessage_no_filters newMessageManager_def)

section \<open>The packet read after the wait has been assigned\<close>

text \<open>
  An operation that resumes reads the variables that its predicate assigned. The
  manager resumes it only after the predicate has consumed a frame, and each predicate
  assigns \<open>respPckt\<close> or sets \<open>returnNull\<close> when it consumes: no operation reads the
  fields of a packet that was created and never assigned.
\<close>

lemma receive_emptied:
  assumes decl: "\<And>m. \<not> consumes (consumeMessage f) v m \<Longrightarrow> declines (consumeMessage f) v m"
  shows "filters mm = [f] \<Longrightarrow> receive inbound (mm, v) = (mm', v') \<Longrightarrow> filters mm' = []
    \<Longrightarrow> \<exists>m\<in>set inbound. consumeMessage f m v = Inr (True, v')"
proof (induction inbound)
  case Nil
  then show ?case by simp
next
  case (Cons m ms)
  show ?case
  proof (cases "consumes (consumeMessage f) v m")
    case False
    then have "onMessage m (mm, v) = (mm, v)"
      using Cons.prems(1) decl by (simp add: onMessage_declined)
    with Cons show ?thesis by simp
  next
    case True
    then obtain v1 where c: "consumeMessage f m v = Inr (True, v1)"
      by (auto simp: consumes_def split: sum.splits)
    show ?thesis
    proof (cases "deleteAfterFirstMessageConsumed f")
      case True
      with Cons.prems(1) c have "onMessage m (mm, v) = (mm\<lparr>filters := []\<rparr>, v1)"
        by (simp add: onMessage_consumed)
      with Cons.prems(2) have "v' = v1"
        by (simp add: receive_no_filters)
      with c show ?thesis by simp
    next
      case False
      with Cons.prems(1) receive_persistent [of mm f "m # ms" v] Cons.prems(2,3)
      show ?thesis by auto
    qed
  qed
qed

lemma request_Inr:
  assumes "\<And>m. \<not> consumes (consumeMessage f) v m \<Longrightarrow> declines (consumeMessage f) v m"
    and "snd (request f v inbound) = Inr v'"
  shows "\<exists>m\<in>set inbound. consumeMessage f m v = Inr (True, v')"
proof -
  obtain mm' v'' where r: "receive inbound (registerFilter f newMessageManager, v) = (mm', v'')"
    by (cases "receive inbound (registerFilter f newMessageManager, v)")
  with assms(2) have "filters mm' = []" and "v'' = v'"
    by (simp_all add: request_def split: if_splits)
  with r receive_emptied [OF assms(1), of "registerFilter f newMessageManager" inbound mm' v']
  show ?thesis
    by (simp add: registerFilter_def newMessageManager_def)
qed

lemma request_Inl: "snd (request f v inbound) = Inl e \<Longrightarrow> e = Timeout"
  by (simp add: request_def split: prod.splits if_splits)

lemma getCoinChildren_no_TypeError:
  "snd (getCoinChildren au ser pu args inbound) \<noteq> Inl TypeError"
proof
  assume t: "snd (getCoinChildren au ser pu args inbound) = Inl TypeError"
  let ?cId = "validateHashString au (getCoinChildrenArgs.coinId args)"
  let ?f = "\<lparr>messageToSend = Some (makeMsg request_children
               (RequestChildrenPckt \<lparr>RequestChildren.coinName = ?cId\<rparr>)),
             consumeMessage = getCoinChildren_consumeMessage ser ?cId,
             deleteAfterFirstMessageConsumed = True,
             expectedMaxRensponseWait = 15000\<rparr>"
  obtain out r where req: "request ?f None inbound = (out, r)"
    by (cases "request ?f None inbound")
  with t have "r = Inr None \<or> r = Inl TypeError"
    by (auto simp: getCoinChildren_def Let_def split: if_splits sum.splits option.splits)
  then show False
  proof
    assume "r = Inr None"
    with req have "snd (request ?f None inbound) = Inr None" by simp
    from request_Inr [OF _ this] obtain m
      where "getCoinChildren_consumeMessage ser ?cId m None = Inr (True, None)"
      by (auto simp: getCoinChildren_not_consumed)
    then show False
      by (simp add: getCoinChildren_consumeMessage_def split: if_splits option.splits)
  next
    assume "r = Inl TypeError"
    with req request_Inl [of ?f None inbound TypeError] show False by simp
  qed
qed

lemma getPuzzleSolution_no_TypeError:
  "snd (getPuzzleSolution au ser pu args inbound) \<noteq> Inl TypeError"
proof
  assume t: "snd (getPuzzleSolution au ser pu args inbound) = Inl TypeError"
  let ?cId = "validateHashString au (getPuzzleSolutionArgs.coinId args)"
  let ?h = "getPuzzleSolutionArgs.height args"
  let ?f = "\<lparr>messageToSend = Some (makeMsg request_puzzle_solution (RequestPuzzleSolutionPckt
               \<lparr>RequestPuzzleSolution.coinName = ?cId, RequestPuzzleSolution.height = ?h\<rparr>)),
             consumeMessage = getPuzzleSolution_consumeMessage ser ?cId ?h,
             deleteAfterFirstMessageConsumed = True,
             expectedMaxRensponseWait = 15000\<rparr>"
  obtain out r where req: "request ?f (None, False) inbound = (out, r)"
    by (cases "request ?f (None, False) inbound")
  with t have "r = Inr (None, False) \<or> r = Inl TypeError"
    by (auto simp: getPuzzleSolution_def Let_def split: if_splits sum.splits option.splits)
  then show False
  proof
    assume "r = Inr (None, False)"
    with req have "snd (request ?f (None, False) inbound) = Inr (None, False)" by simp
    from request_Inr [OF _ this] obtain m
      where "getPuzzleSolution_consumeMessage ser ?cId ?h m (None, False) = Inr (True, (None, False))"
      by (auto simp: getPuzzleSolution_not_consumed)
    then show False
      by (simp add: getPuzzleSolution_consumeMessage_def split: if_splits option.splits)
  next
    assume "r = Inl TypeError"
    with req request_Inl [of ?f "(None, False)" inbound TypeError] show False by simp
  qed
qed

lemma getBlocksHeaders_no_TypeError:
  "snd (getBlocksHeaders ser pu args inbound) \<noteq> Inl TypeError"
proof
  assume t: "snd (getBlocksHeaders ser pu args inbound) = Inl TypeError"
  let ?s = "getBlocksHeadersArgs.startHeight args"
  let ?e = "getBlocksHeadersArgs.endHeight args"
  let ?f = "\<lparr>messageToSend = Some (makeMsg request_header_blocks (RequestHeaderBlocksPckt
               \<lparr>RequestHeaderBlocks.startHeight = ?s, RequestHeaderBlocks.endHeight = ?e\<rparr>)),
             consumeMessage = getBlocksHeaders_consumeMessage ser ?s ?e,
             deleteAfterFirstMessageConsumed = True,
             expectedMaxRensponseWait = 15000\<rparr>"
  obtain out r where req: "request ?f (False, None) inbound = (out, r)"
    by (cases "request ?f (False, None) inbound")
  with t have "r = Inr (False, None) \<or> r = Inl TypeError"
    by (auto simp: getBlocksHeaders_def Let_def split: if_splits sum.splits option.splits)
  then show False
  proof
    assume "r = Inr (False, None)"
    with req have "snd (request ?f (False, None) inbound) = Inr (False, None)" by simp
    from request_Inr [OF _ this] obtain m
      where "getBlocksHeaders_consumeMessage ser ?s ?e m (False, None) = Inr (True, (False, None))"
      by (auto simp: getBlocksHeaders_not_consumed)
    then show False
      by (simp add: getBlocksHeaders_consumeMessage_def split: if_splits option.splits)
  next
    assume "r = Inl TypeError"
    with req request_Inl [of ?f "(False, None)" inbound TypeError] show False by simp
  qed
qed

lemma getCoinRemovals_not_consumed:
  "\<not> consumes (getCoinRemovals_consumeMessage ser h hh) v msg
     \<Longrightarrow> declines (getCoinRemovals_consumeMessage ser h hh) v msg"
  by (auto simp: consumes_def declines_def getCoinRemovals_consumeMessage_def
      split: if_splits option.splits)

lemma getCoinRemovals_no_TypeError:
  "snd (getCoinRemovals au ser pu args inbound) \<noteq> Inl TypeError"
proof
  assume t: "snd (getCoinRemovals au ser pu args inbound) = Inl TypeError"
  let ?hh = "validateHashString au (getCoinRemovalsArgs.headerHash args)"
  let ?h = "getCoinRemovalsArgs.height args"
  let ?parse = "case getCoinRemovalsArgs.coinIds args of
                  None \<Rightarrow> Some []
                | Some cIds \<Rightarrow> getCoinRemovals_parse au cIds 0 []"
  from t have hh: "length ?hh \<noteq> 0"
    by (auto simp: getCoinRemovals_def Let_def)
  with t obtain parsedCoinIds where p: "?parse = Some parsedCoinIds"
    by (cases ?parse) (auto simp: getCoinRemovals_def Let_def)
  let ?f = "\<lparr>messageToSend = Some (makeMsg request_removals (RequestRemovalsPckt
               \<lparr>RequestRemovals.height = ?h, RequestRemovals.headerHash = ?hh,
                coinNames = (if getCoinRemovalsArgs.coinIds args \<noteq> None
                             then Some parsedCoinIds else None)\<rparr>)),
             consumeMessage = getCoinRemovals_consumeMessage ser ?h ?hh,
             deleteAfterFirstMessageConsumed = True,
             expectedMaxRensponseWait = 15000\<rparr>"
  obtain out r where req: "request ?f (False, None) inbound = (out, r)"
    by (cases "request ?f (False, None) inbound")
  with t hh p have r: "r = Inr (False, None) \<or> r = Inl TypeError"
    by (auto simp: getCoinRemovals_def Let_def split: if_splits sum.splits option.splits)
  from r show False
  proof
    assume "r = Inr (False, None)"
    with req have "snd (request ?f (False, None) inbound) = Inr (False, None)" by simp
    from request_Inr [OF _ this] obtain m
      where "getCoinRemovals_consumeMessage ser ?h ?hh m (False, None) = Inr (True, (False, None))"
      by (auto simp: getCoinRemovals_not_consumed)
    then show False
      by (simp add: getCoinRemovals_consumeMessage_def split: if_splits option.splits)
  next
    assume "r = Inl TypeError"
    with req request_Inl [of ?f "(False, None)" inbound TypeError] show False by simp
  qed
qed

end
